theory Spec2Isabelle
  imports Main "HOL-Library.Word" "HOL-Library.Sublist"
begin

section \<open>Python values\<close>

text \<open>
  A Python \<open>str\<close> is a sequence of Unicode code points: slicing and \<open>len\<close> count code
  points. It is modelled as a list of code point numbers. ASCII literals of the source are
  written through \<open>u\<close>; the Russian literals are given by their code points.
\<close>

type_synonym ustr = "nat list"

definition u :: "string \<Rightarrow> ustr" where
  "u s = map of_char s"

text \<open>
  The values \<open>json.loads\<close> produces: \<open>None\<close>, booleans, integers, floats (kept as
  their IEEE-754 bit pattern), strings, lists, and dicts (key/value pairs in insertion
  order, looked up by key).
\<close>

datatype pyval =
    PNone
  | PBool bool
  | PInt int
  | PFloat "64 word"
  | PStr ustr
  | PList "pyval list"
  | PDict "(ustr \<times> pyval) list"

fun truthy :: "pyval \<Rightarrow> bool" where
  "truthy PNone = False"
| "truthy (PBool b) = b"
| "truthy (PInt i) = (i \<noteq> 0)"
| "truthy (PFloat w) = (w \<noteq> 0 \<and> w \<noteq> 0x8000000000000000)"
| "truthy (PStr s) = (s \<noteq> [])"
| "truthy (PList xs) = (xs \<noteq> [])"
| "truthy (PDict kvs) = (kvs \<noteq> [])"

fun isinstance_str :: "pyval \<Rightarrow> bool" where
  "isinstance_str (PStr s) = True"
| "isinstance_str v = False"

fun type_name :: "pyval \<Rightarrow> ustr" where
  "type_name PNone = u ''NoneType''"
| "type_name (PBool b) = u ''bool''"
| "type_name (PInt i) = u ''int''"
| "type_name (PFloat w) = u ''float''"
| "type_name (PStr s) = u ''str''"
| "type_name (PList xs) = u ''list''"
| "type_name (PDict kvs) = u ''dict''"

text \<open>\<open>d.get(key, default)\<close> on a dict.\<close>

definition dict_get :: "(ustr \<times> pyval) list \<Rightarrow> ustr \<Rightarrow> pyval \<Rightarrow> pyval" where
  "dict_get d k dflt = (case map_of d k of None \<Rightarrow> dflt | Some v \<Rightarrow> v)"

text \<open>The exceptions that leave the functions modelled here.\<close>

datatype exn =
    AttributeError ustr
  | TypeError
  | KeyError ustr
  | ValidationError
  | HTTPException nat ustr
  | IntegrityError
  | DBAPIError
  | StaleDataError
  | UpstreamError ustr

text \<open>\<open>m[key]\<close> with a string key: only a dict that has the key answers.\<close>

fun subscript :: "pyval \<Rightarrow> ustr \<Rightarrow> exn + pyval" where
  "subscript (PDict kvs) k = (case map_of kvs k of None \<Rightarrow> Inl (KeyError k) | Some v \<Rightarrow> Inr v)"
| "subscript v k = Inl TypeError"

text \<open>\<open>sep.join(parts)\<close>.\<close>

fun join :: "ustr \<Rightarrow> ustr list \<Rightarrow> ustr" where
  "join sep [] = []"
| "join sep [x] = x"
| "join sep (x # y # ys) = x @ sep @ join sep (y # ys)"

text \<open>\<open>str(n)\<close> of an integer, in decimal.\<close>

fun str_nat :: "nat \<Rightarrow> ustr" where
  "str_nat n = (if n < 10 then [48 + n] else str_nat (n div 10) @ [48 + n mod 10])"

declare str_nat.simps [simp del]

definition str_int :: "int \<Rightarrow> ustr" where
  "str_int i = (if i < 0 then 45 # str_nat (nat (- i)) else str_nat (nat i))"

text \<open>\<open>str.isspace\<close> of one code point, and \<open>s.strip()\<close>.\<close>

definition isspace :: "nat \<Rightarrow> bool" where
  "isspace c = ((9 \<le> c \<and> c \<le> 13) \<or> (28 \<le> c \<and> c \<le> 32) \<or> c = 133 \<or> c = 160
     \<or> c = 5760 \<or> (8192 \<le> c \<and> c \<le> 8202) \<or> c = 8232 \<or> c = 8233 \<or> c = 8239
     \<or> c = 8287 \<or> c = 12288)"

definition strip :: "ustr \<Rightarrow> ustr" where
  "strip s = rev (dropWhile isspace (rev (dropWhile isspace s)))"

section \<open>String literals of the source\<close>

definition lit_no_orders :: ustr where
  \<comment> \<open>dialog.py:166, em dash, 'zakazy ne naideny', em dash\<close>
  "lit_no_orders =
    [8212, 32, 1079, 1072, 1082, 1072, 1079, 1099, 32, 1085, 1077, 32, 1085, 1072, 1081,
     1076, 1077, 1085, 1099, 32, 8212]"

definition lit_cancelled :: ustr where
  \<comment> \<open>dialog.py:171, 'otmenen' (cancelled)\<close>
  "lit_cancelled =
    [1086, 1090, 1084, 1077, 1085, 1077, 1085]"

definition lit_orders_error :: ustr where
  \<comment> \<open>dialog.py:181, 'Oshibka chteniya zakazov: '\<close>
  "lit_orders_error =
    [1054, 1096, 1080, 1073, 1082, 1072, 32, 1095, 1090, 1077, 1085, 1080, 1103, 32, 1079,
     1072, 1082, 1072, 1079, 1086, 1074, 58, 32]"

definition lit_kb_empty :: ustr where
  \<comment> \<open>dialog.py:192, 'Baza znanii pusta.'\<close>
  "lit_kb_empty =
    [1041, 1072, 1079, 1072, 32, 1079, 1085, 1072, 1085, 1080, 1081, 32, 1087, 1091, 1089,
     1090, 1072, 46]"

definition lit_no_chunks :: ustr where
  \<comment> \<open>dialog.py:200, 'Relevantnye fragmenty ne naideny.'\<close>
  "lit_no_chunks =
    [1056, 1077, 1083, 1077, 1074, 1072, 1085, 1090, 1085, 1099, 1077, 32, 1092, 1088, 1072,
     1075, 1084, 1077, 1085, 1090, 1099, 32, 1085, 1077, 32, 1085, 1072, 1081, 1076, 1077,
     1085, 1099, 46]"

definition lit_kb_error :: ustr where
  \<comment> \<open>dialog.py:202, 'Oshibka chteniya bazy znanii: '\<close>
  "lit_kb_error =
    [1054, 1096, 1080, 1073, 1082, 1072, 32, 1095, 1090, 1077, 1085, 1080, 1103, 32, 1073,
     1072, 1079, 1099, 32, 1079, 1085, 1072, 1085, 1080, 1081, 58, 32]"

definition lit_no_dialog :: ustr where
  \<comment> \<open>dialog.py:209, em dash, 'dialog otsutstvuet', em dash\<close>
  "lit_no_dialog =
    [8212, 32, 1076, 1080, 1072, 1083, 1086, 1075, 32, 1086, 1090, 1089, 1091, 1090, 1089,
     1090, 1074, 1091, 1077, 1090, 32, 8212]"

definition lit_date :: ustr where
  \<comment> \<open>dialog.py:216, 'Tekushchaya data: '\<close>
  "lit_date =
    [1058, 1077, 1082, 1091, 1097, 1072, 1103, 32, 1076, 1072, 1090, 1072, 58, 32]"

definition lit_track :: ustr where
  \<comment> \<open>dialog.py:217, 'Trek-nomer dlya novogo zakaza: '\<close>
  "lit_track =
    [1058, 1088, 1077, 1082, 45, 1085, 1086, 1084, 1077, 1088, 32, 1076, 1083, 1103, 32,
     1085, 1086, 1074, 1086, 1075, 1086, 32, 1079, 1072, 1082, 1072, 1079, 1072, 58, 32]"

definition lit_orders :: ustr where
  \<comment> \<open>dialog.py:218, 'Tekushchie zakazy (tablitsa order):' and two newlines\<close>
  "lit_orders =
    [1058, 1077, 1082, 1091, 1097, 1080, 1077, 32, 1079, 1072, 1082, 1072, 1079, 1099, 32,
     40, 1090, 1072, 1073, 1083, 1080, 1094, 1072, 32, 111, 114, 100, 101, 114, 41, 58, 10,
     10]"

definition lit_chunks :: ustr where
  \<comment> \<open>dialog.py:220, 'Relevantnye fragmenty bazy znanii:' and two newlines\<close>
  "lit_chunks =
    [1056, 1077, 1083, 1077, 1074, 1072, 1085, 1090, 1085, 1099, 1077, 32, 1092, 1088, 1072,
     1075, 1084, 1077, 1085, 1090, 1099, 32, 1073, 1072, 1079, 1099, 32, 1079, 1085, 1072,
     1085, 1080, 1081, 58, 10, 10]"

definition lit_history :: ustr where
  \<comment> \<open>dialog.py:221, 'Istoriya dialoga:' and two newlines\<close>
  "lit_history =
    [1048, 1089, 1090, 1086, 1088, 1080, 1103, 32, 1076, 1080, 1072, 1083, 1086, 1075, 1072,
     58, 10, 10]"

definition lit_greeting :: ustr where
  \<comment> \<open>dialog.py:231-233, the instruction to greet a client who has not introduced themselves\<close>
  "lit_greeting =
    [1045, 1089, 1083, 1080, 32, 1082, 1083, 1080, 1077, 1085, 1090, 32, 1077, 1097, 1105,
     32, 1085, 1077, 32, 1087, 1088, 1077, 1076, 1089, 1090, 1072, 1074, 1080, 1083, 1089,
     1103, 44, 32, 1085, 1072, 1095, 1085, 1080, 32, 1076, 1080, 1072, 1083, 1086, 1075, 32,
     1089, 32, 1087, 1088, 1080, 1074, 1077, 1090, 1089, 1090, 1074, 1080, 1103, 32, 1080,
     32, 1087, 1088, 1077, 1076, 1089, 1090, 1072, 1074, 1083, 1077, 1085, 1080, 1103, 32,
     1086, 1090, 32, 1080, 1084, 1077, 1085, 1080, 32, 1072, 1089, 1089, 1080, 1089, 1090,
     1077, 1085, 1090, 1072, 46, 32, 1055, 1088, 1080, 1084, 1077, 1088, 58, 32, 39, 1047,
     1076, 1088, 1072, 1074, 1089, 1090, 1074, 1091, 1081, 1090, 1077, 33, 32, 1052, 1077,
     1085, 1103, 32, 1079, 1086, 1074, 1091, 1090, 32, 1040, 1089, 1090, 1088, 1072, 44, 32,
     1103, 32, 1082, 1086, 1085, 1089, 1091, 1083, 1100, 1090, 1072, 1085, 1090, 32, 1084,
     1072, 1075, 1072, 1079, 1080, 1085, 1072, 32, 1090, 1086, 1074, 1072, 1088, 1086, 1074,
     32, 1076, 1083, 1103, 32, 1078, 1080, 1074, 1086, 1090, 1085, 1099, 1093, 46, 32, 1050,
     1072, 1082, 32, 1084, 1086, 1075, 1091, 32, 1082, 32, 1074, 1072, 1084, 32, 1086, 1073,
     1088, 1072, 1097, 1072, 1090, 1100, 1089, 1103, 63, 39]"

definition lit_known :: ustr where
  \<comment> \<open>dialog.py:240, 'Izvestnye dannye klienta:', newline, 'Imya: '\<close>
  "lit_known =
    [1048, 1079, 1074, 1077, 1089, 1090, 1085, 1099, 1077, 32, 1076, 1072, 1085, 1085, 1099,
     1077, 32, 1082, 1083, 1080, 1077, 1085, 1090, 1072, 58, 10, 1048, 1084, 1103, 58, 32]"

definition lit_no_name :: ustr where
  \<comment> \<open>dialog.py:240, 'ne ukazano'\<close>
  "lit_no_name =
    [1085, 1077, 32, 1091, 1082, 1072, 1079, 1072, 1085, 1086]"

definition lit_contact :: ustr where
  \<comment> \<open>dialog.py:240, newline, 'Kontakt: '\<close>
  "lit_contact =
    [10, 1050, 1086, 1085, 1090, 1072, 1082, 1090, 58, 32]"

definition lit_no_contact :: ustr where
  \<comment> \<open>dialog.py:240, 'ne ukazan'\<close>
  "lit_no_contact =
    [1085, 1077, 32, 1091, 1082, 1072, 1079, 1072, 1085]"

definition lit_question :: ustr where
  \<comment> \<open>dialog.py:246, 'Otvet strogo v formate JSON!', two newlines, 'Vopros polzovatelya:', two newlines\<close>
  "lit_question =
    [1054, 1090, 1074, 1077, 1090, 32, 1089, 1090, 1088, 1086, 1075, 1086, 32, 1074, 32,
     1092, 1086, 1088, 1084, 1072, 1090, 1077, 32, 74, 83, 79, 78, 33, 10, 10, 1042, 1086,
     1087, 1088, 1086, 1089, 32, 1087, 1086, 1083, 1100, 1079, 1086, 1074, 1072, 1090, 1077,
     1083, 1103, 58, 10, 10]"

definition lit_parse_error :: ustr where
  \<comment> \<open>dialog.py:267, 'Oshibka razbora otveta modeli: '\<close>
  "lit_parse_error =
    [1054, 1096, 1080, 1073, 1082, 1072, 32, 1088, 1072, 1079, 1073, 1086, 1088, 1072, 32,
     1086, 1090, 1074, 1077, 1090, 1072, 32, 1084, 1086, 1076, 1077, 1083, 1080, 58, 32]"

definition lit_lead_not_found :: ustr where
  \<comment> \<open>profile.py:50, 'Lid ne naiden'\<close>
  "lit_lead_not_found =
    [1051, 1080, 1076, 32, 1085, 1077, 32, 1085, 1072, 1081, 1076, 1077, 1085]"

definition nl :: ustr where
  "nl = [10]"

definition key_role :: ustr where
  "key_role = u ''role''"

definition key_content :: ustr where
  "key_content = u ''content''"

definition role_user :: ustr where
  "role_user = u ''user''"

definition role_assistant :: ustr where
  "role_assistant = u ''assistant''"

definition role_system :: ustr where
  "role_system = u ''system''"

definition lit_faq :: ustr where
  \<comment> \<open>dialog.py:219, 'FAQ:' and two newlines\<close>
  "lit_faq = u ''FAQ:'' @ nl @ nl"

text \<open>
  The message of the AttributeError for \<open>v.attr\<close> when the type of \<open>v\<close> has no such
  attribute (code point 39 is the single quote).
\<close>

definition no_attribute :: "pyval \<Rightarrow> ustr \<Rightarrow> ustr" where
  "no_attribute v attr =
     [39] @ type_name v @ [39] @ u '' object has no attribute '' @ [39] @ attr @ [39]"

section \<open>Data model\<close>

text \<open>
  \<open>models/lead.py\<close>: a row of table \<open>leads\<close>. The attributes \<open>name\<close> and \<open>contact\<close> of
  the mapped object are Python attributes, and \<open>step\<close> assigns values of the parsed model
  response to them, so they hold any Python value; \<open>log\<close> is only ever assigned a validated
  \<open>Optional[str]\<close>. The column \<open>timestamp\<close> (a server default) is not read or written by
  the dialog and is left out.
\<close>

record lead =
  lead_id :: int
  name :: pyval
  contact :: pyval
  log :: "ustr option"
  login :: "ustr option"
  password :: "ustr option"
  is_admin :: bool

text \<open>
  \<open>schemas/lead.py\<close>: \<open>LeadBase\<close> has the three optional fields \<open>name\<close>, \<open>contact\<close>,
  \<open>log\<close>, each \<open>Optional[str]\<close> with default \<open>None\<close>; \<open>LeadCreate\<close> inherits them
  unchanged and declares no field \<open>id\<close>. A field is \<open>None\<close> here when the constructor
  did not receive it (unset), \<open>Some v\<close> when it was set to \<open>v\<close>.
\<close>

record LeadBase =
  f_name :: "ustr option option"
  f_contact :: "ustr option option"
  f_log :: "ustr option option"

type_synonym LeadCreate = LeadBase

definition key_name :: ustr where
  "key_name = u ''name''"

definition key_contact :: ustr where
  "key_contact = u ''contact''"

definition key_log :: ustr where
  "key_log = u ''log''"

definition key_id :: ustr where
  "key_id = u ''id''"

text \<open>
  Validation of one \<open>Optional[str]\<close> field from the keyword arguments: absent leaves the
  field unset, \<open>None\<close> and strings are accepted, anything else is a validation error.
\<close>

definition validate_field :: "(ustr \<times> pyval) list \<Rightarrow> ustr \<Rightarrow> exn + ustr option option" where
  "validate_field kwargs k =
     (case map_of kwargs k of
        None \<Rightarrow> Inr None
      | Some PNone \<Rightarrow> Inr (Some None)
      | Some (PStr s) \<Rightarrow> Inr (Some (Some s))
      | Some v \<Rightarrow> Inl ValidationError)"

text \<open>
  \<open>LeadBase(**kwargs)\<close> and \<open>LeadCreate(**kwargs)\<close>: the model reads its three declared
  fields; a keyword that is not a declared field (such as \<open>id\<close>) is ignored, which is the
  default of pydantic models (no \<open>extra\<close> setting is configured in \<open>schemas/lead.py\<close>).
\<close>

definition LeadBase_init :: "(ustr \<times> pyval) list \<Rightarrow> exn + LeadBase" where
  "LeadBase_init kwargs =
     (case validate_field kwargs key_name of Inl e \<Rightarrow> Inl e | Inr n \<Rightarrow>
      (case validate_field kwargs key_contact of Inl e \<Rightarrow> Inl e | Inr c \<Rightarrow>
       (case validate_field kwargs key_log of Inl e \<Rightarrow> Inl e | Inr l \<Rightarrow>
          Inr \<lparr>f_name = n, f_contact = c, f_log = l\<rparr>)))"

definition unset_default :: "ustr option option \<Rightarrow> ustr option" where
  "unset_default f = (case f of None \<Rightarrow> None | Some v \<Rightarrow> v)"

text \<open>\<open>m.dict()\<close> / \<open>m.model_dump()\<close>: every declared field, unset ones at their default.\<close>

definition model_dump :: "LeadBase \<Rightarrow> (ustr \<times> ustr option) list" where
  "model_dump m =
     [(key_name, unset_default (f_name m)), (key_contact, unset_default (f_contact m)),
      (key_log, unset_default (f_log m))]"

text \<open>\<open>m.dict(exclude_unset=True)\<close>: only the fields the constructor received.\<close>

definition dict_exclude_unset :: "LeadBase \<Rightarrow> (ustr \<times> ustr option) list" where
  "dict_exclude_unset m =
     (case f_name m of None \<Rightarrow> [] | Some v \<Rightarrow> [(key_name, v)]) @
     (case f_contact m of None \<Rightarrow> [] | Some v \<Rightarrow> [(key_contact, v)]) @
     (case f_log m of None \<Rightarrow> [] | Some v \<Rightarrow> [(key_log, v)])"

definition of_optional :: "ustr option \<Rightarrow> pyval" where
  "of_optional v = (case v of None \<Rightarrow> PNone | Some s \<Rightarrow> PStr s)"

text \<open>\<open>setattr(db_lead, key, value)\<close> for the keys a \<open>LeadBase\<close> can carry.\<close>

definition setattr :: "(ustr \<times> ustr option) \<Rightarrow> lead \<Rightarrow> lead" where
  "setattr kv l =
     (if fst kv = key_name then l\<lparr>name := of_optional (snd kv)\<rparr>
      else if fst kv = key_contact then l\<lparr>contact := of_optional (snd kv)\<rparr>
      else if fst kv = key_log then l\<lparr>log := snd kv\<rparr>
      else l)"

text \<open>\<open>models/order.py\<close>: a row of table \<open>order\<close>.\<close>

record order =
  o_id :: int
  o_date :: "ustr option"
  o_customer :: "ustr option"
  o_phone :: "ustr option"
  o_products :: "ustr option"
  o_sum :: "ustr option"
  o_status :: "ustr option"
  o_payment :: "ustr option"
  o_delivery :: "ustr option"
  o_track :: "ustr option"

text \<open>One entry of the result of \<open>Base.search_chunks\<close> (the metadata is not used).\<close>

record chunk =
  chunk_content :: ustr
  chunk_score :: "64 word"

text \<open>A chat message sent to the model.\<close>

record message =
  role :: ustr
  content :: ustr

section \<open>Collaborators\<close>

text \<open>
  The knowledge base object \<open>app.state.base\<close>: \<open>base_read\<close> returns the FAQ text and
  \<open>search_chunks\<close> the search results, or they raise; \<open>Inl\<close> carries the text of the
  exception.
\<close>

record knowledge_base =
  base_read :: "ustr + ustr"
  search_chunks :: "ustr \<Rightarrow> nat \<Rightarrow> ustr + chunk list"

text \<open>
  Everything the dialog takes from outside: the prompt constant of
  \<open>app.services.assistant\<close> (a module that is not part of the sources), the clock and the
  random draw, the rows of table \<open>order\<close> (or the text of the exception of the query), the
  knowledge base, the model call (\<open>Inl\<close>: the text of the exception it raised), the
  \<open>json\<close> codec (\<open>Inl\<close>: the text of the decoding exception), Python's formatting of
  a value that is not a string and of a float with three decimals, and the database:
  what an SQL statement makes of the rows of table \<open>leads\<close> (\<open>None\<close>: the statement
  raises), what the driver stores when a number or a boolean is bound to a text column
  (\<open>None\<close>: it refuses the value), and the identifier the database assigns to a row
  inserted without one.
\<close>

record world =
  DIALOG_SYS_PROMPT :: ustr
  current_date :: ustr
  track_number :: int
  order_rows :: "ustr + order list"
  base :: "knowledge_base option"
  gpt_request :: "message list \<Rightarrow> ustr + ustr"
  sql_statement :: "ustr \<Rightarrow> lead list \<Rightarrow> lead list option"
  bind_scalar :: "pyval \<Rightarrow> ustr option"
  json_loads :: "ustr \<Rightarrow> ustr + pyval"
  json_dumps :: "pyval \<Rightarrow> ustr"
  py_format :: "pyval \<Rightarrow> ustr"
  format_3f :: "64 word \<Rightarrow> ustr"
  autoincrement :: "lead list \<Rightarrow> int"

text \<open>An f-string field \<open>{v}\<close>: a string is inserted as it is.\<close>

definition fmt :: "world \<Rightarrow> pyval \<Rightarrow> ustr" where
  "fmt w v = (case v of PStr s \<Rightarrow> s | _ \<Rightarrow> py_format w v)"

section \<open>The database session\<close>

text \<open>
  What a request sees of the database: the committed rows of table \<open>leads\<close>; the rows
  as the request's open transaction has written them, once it has written; the lead
  object loaded into the request's session (\<open>request.state.db\<close>), as a pair of its
  attributes as loaded and its attributes now (\<open>AssistantDialog\<close> loads one lead in a
  request); and a record of the calls that reach outside: the model call, the values
  handed to the SQL executor with their outcome, the name and contact reported to the log
  after section 9, and the commits of the profile services.
\<close>

datatype effect =
    LlmCall "message list"
  | SqlExec pyval bool
  | LeadLogged pyval pyval
  | LeadUpdated int
  | LeadCreated int

record state =
  table :: "lead list"
  tx :: "lead list option"
  session :: "(lead \<times> lead) option"
  trace :: "effect list"

text \<open>The middleware opens a new session for each request.\<close>

definition request :: "lead list \<Rightarrow> state" where
  "request rows = \<lparr>table = rows, tx = None, session = None, trace = []\<rparr>"

text \<open>The rows a statement of the session reads.\<close>

definition view :: "state \<Rightarrow> lead list" where
  "view st = (case tx st of None \<Rightarrow> table st | Some rows \<Rightarrow> rows)"

definition find_lead :: "lead list \<Rightarrow> int \<Rightarrow> lead option" where
  "find_lead rows i = find (\<lambda>r. lead_id r = i) rows"

text \<open>
  A value bound to a text column (\<open>name\<close>, \<open>contact\<close>): \<open>None\<close> and strings are
  stored as they are, a list or a dict is refused by the driver, and a number or a
  boolean is stored as the text the driver makes of it, or refused.
\<close>

definition bind_string :: "world \<Rightarrow> pyval \<Rightarrow> exn + pyval" where
  "bind_string w v =
     (case v of
        PNone \<Rightarrow> Inr PNone
      | PStr s \<Rightarrow> Inr (PStr s)
      | PList xs \<Rightarrow> Inl DBAPIError
      | PDict kvs \<Rightarrow> Inl DBAPIError
      | _ \<Rightarrow> (case bind_scalar w v of None \<Rightarrow> Inl DBAPIError | Some s \<Rightarrow> Inr (PStr s)))"

text \<open>
  The parameter of the UPDATE for one text column of a loaded object: none when the
  attribute has the value it was loaded with.
\<close>

definition set_value :: "world \<Rightarrow> pyval \<Rightarrow> pyval \<Rightarrow> exn + pyval option" where
  "set_value w loaded current =
     (if current = loaded then Inr None
      else (case bind_string w current of Inl e \<Rightarrow> Inl e | Inr v \<Rightarrow> Inr (Some v)))"

definition set_columns :: "pyval option \<Rightarrow> pyval option \<Rightarrow> ustr option option \<Rightarrow> lead \<Rightarrow> lead" where
  "set_columns n k l r =
     r\<lparr>name := (case n of None \<Rightarrow> name r | Some v \<Rightarrow> v),
       contact := (case k of None \<Rightarrow> contact r | Some v \<Rightarrow> v),
       log := (case l of None \<Rightarrow> log r | Some v \<Rightarrow> v)\<rparr>"

text \<open>
  The flush of the session: when an attribute of the loaded object differs from its
  loaded value, an UPDATE of the changed columns is sent for the row of its identifier.
  Binding a value the driver refuses raises, and so does an UPDATE that matches no row.
\<close>

definition flush :: "world \<Rightarrow> state \<Rightarrow> exn + state" where
  "flush w st =
     (case session st of
        None \<Rightarrow> Inr st
      | Some (s, c) \<Rightarrow>
          (if name c = name s \<and> contact c = contact s \<and> log c = log s then Inr st
           else (case set_value w (name s) (name c) of
                   Inl e \<Rightarrow> Inl e
                 | Inr n \<Rightarrow>
                     (case set_value w (contact s) (contact c) of
                        Inl e \<Rightarrow> Inl e
                      | Inr k \<Rightarrow>
                          (case find_lead (view st) (lead_id s) of
                             None \<Rightarrow> Inl StaleDataError
                           | Some r \<Rightarrow>
                               Inr (st\<lparr>tx := Some (map (\<lambda>x. if lead_id x = lead_id s
                                            then set_columns n k
                                                   (if log c = log s then None else Some (log c)) x
                                            else x) (view st)),
                                       session := Some (c, c)\<rparr>))))))"

text \<open>
  \<open>db.commit()\<close>: the rows of the transaction become the committed ones, and the loaded
  object expires (\<open>expire_on_commit\<close> is \<open>bool("0")\<close>, which is true).
\<close>

definition commit :: "state \<Rightarrow> state" where
  "commit st = st\<lparr>table := view st, tx := None, session := None\<rparr>"

section \<open>Profile services (\<open>services/profile.py\<close>)\<close>

text \<open>
  \<open>select(LeadModel).where(LeadModel.id == id)\<close> followed by \<open>scalar_one_or_none()\<close>: the
  session flushes, the row is looked up in the database, and a row whose object is already
  loaded is answered by that object, with its current attributes.
\<close>

definition read_lead_service :: "world \<Rightarrow> int \<Rightarrow> state \<Rightarrow> (exn + lead) \<times> state" where
  "read_lead_service w i st =
     (case flush w st of
        Inl e \<Rightarrow> (Inl e, st)
      | Inr st1 \<Rightarrow>
          (case find_lead (view st1) i of
             None \<Rightarrow> (Inl (HTTPException 404 lit_lead_not_found), st1)
           | Some r \<Rightarrow>
               (case session st1 of
                  None \<Rightarrow> (Inr r, st1\<lparr>session := Some (r, r)\<rparr>)
                | Some (s, c) \<Rightarrow>
                    (if lead_id c = i then (Inr c, st1)
                     else (Inr r, st1\<lparr>session := Some (r, r)\<rparr>)))))"

text \<open>
  \<open>update_lead_service\<close> starts with the same SELECT and 404. It then assigns the
  fields of the update to the object and commits, which writes these columns to the row.
  (The mapper leaves out a column whose new value is the loaded one; the row is the same,
  as the callers write a \<open>log\<close> that is not the text they loaded, or run no statement
  between the load and the commit.)
\<close>

definition update_lead_service :: "world \<Rightarrow> int \<Rightarrow> LeadBase \<Rightarrow> state \<Rightarrow> (exn + lead) \<times> state" where
  "update_lead_service w i lead_update st =
     (case read_lead_service w i st of
        (Inl e, st1) \<Rightarrow> (Inl e, st1)
      | (Inr db_lead, st1) \<Rightarrow>
          (let db_lead' = fold setattr (dict_exclude_unset lead_update) db_lead;
               st2 = commit (st1\<lparr>tx := Some (map (\<lambda>x. if lead_id x = i
                                     then fold setattr (dict_exclude_unset lead_update) x
                                     else x) (view st1))\<rparr>)
           in (Inr db_lead', st2\<lparr>trace := trace st2 @ [LeadUpdated i]\<rparr>)))"

text \<open>
  \<open>LeadModel(**lead.dict())\<close> receives \<open>name\<close>, \<open>contact\<close> and \<open>log\<close> only, so the row
  is inserted without an identifier and the database assigns one; an identifier that is
  already taken violates the primary key.
\<close>

definition create_lead_service :: "world \<Rightarrow> LeadCreate \<Rightarrow> state \<Rightarrow> (exn + lead) \<times> state" where
  "create_lead_service w lead_create st =
     (case flush w st of
        Inl e \<Rightarrow> (Inl e, st)
      | Inr st1 \<Rightarrow>
          (let new_id = autoincrement w (view st1);
               db_lead = fold setattr (model_dump lead_create)
                           \<lparr>lead_id = new_id, name = PNone, contact = PNone, log = None,
                            login = None, password = None, is_admin = False\<rparr>
           in case find_lead (view st1) new_id of
                Some r \<Rightarrow> (Inl IntegrityError, st1)
              | None \<Rightarrow>
                  (let st2 = commit (st1\<lparr>tx := Some (view st1 @ [db_lead])\<rparr>)
                   in (Inr db_lead, st2\<lparr>trace := trace st2 @ [LeadCreated new_id]\<rparr>))))"

section \<open>Order service and SQL executor\<close>

text \<open>\<open>read_orders_service(request, skip, limit)\<close>: \<open>select(...).offset(skip).limit(limit)\<close>.\<close>

definition read_orders_service :: "world \<Rightarrow> nat \<Rightarrow> nat \<Rightarrow> ustr + order list" where
  "read_orders_service w skip limit =
     (case order_rows w of Inl e \<Rightarrow> Inl e | Inr rows \<Rightarrow> Inr (take limit (drop skip rows)))"

text \<open>
  \<open>utils/db_service.py\<close>: \<open>execute_sql\<close> runs the statement in a session of its own
  and commits it, so the statement acts on the committed rows; any exception inside its
  \<open>try\<close>, that of \<open>text(sql)\<close> for a value that is not a string included, makes it
  return \<open>False\<close>. It never raises. The call is recorded.
\<close>

definition execute_sql :: "world \<Rightarrow> pyval \<Rightarrow> state \<Rightarrow> bool \<times> state" where
  "execute_sql w sql st =
     (case sql of
        PStr s \<Rightarrow>
          (case sql_statement w s (table st) of
             None \<Rightarrow> (False, st\<lparr>trace := trace st @ [SqlExec sql False]\<rparr>)
           | Some rows \<Rightarrow> (True, st\<lparr>table := rows, trace := trace st @ [SqlExec sql True]\<rparr>))
      | _ \<Rightarrow> (False, st\<lparr>trace := trace st @ [SqlExec sql False]\<rparr>))"

section \<open>\<open>AssistantDialog\<close> (\<open>services/dialog.py\<close>)\<close>

text \<open>
  The object keeps \<open>client_id\<close> and \<open>dialog_history\<close>; they are passed explicitly. The
  application installs \<open>app.state.log\<close> at start-up, so \<open>self.log\<close> is a logger; its calls
  write to log files only and are left out, but for the one that reports the lead after
  section 9.
\<close>

subsection \<open>\<open>load_history\<close>\<close>

text \<open>
  The history part of \<open>load_history\<close>: the stored \<open>log\<close> text decodes to a list, and an
  empty or missing text, a text that does not decode, or a decoded value that is not a
  list all give the empty history.
\<close>

definition decode_log :: "world \<Rightarrow> ustr option \<Rightarrow> pyval list" where
  "decode_log w lg =
     (case lg of
        None \<Rightarrow> []
      | Some s \<Rightarrow>
          (if s = [] then []
           else (case json_loads w s of
                   Inl e \<Rightarrow> []
                 | Inr (PList history) \<Rightarrow> history
                 | Inr v \<Rightarrow> [])))"

definition load_history :: "world \<Rightarrow> int \<Rightarrow> state \<Rightarrow> (lead option \<times> pyval list) \<times> state" where
  "load_history w client_id st =
     (case read_lead_service w client_id st of
        (Inl e, st') \<Rightarrow> ((None, []), st')
      | (Inr l, st') \<Rightarrow> ((Some l, decode_log w (log l)), st'))"

subsection \<open>\<open>add_message\<close>\<close>

definition turn :: "ustr \<Rightarrow> pyval \<Rightarrow> pyval" where
  "turn r message = PDict [(key_role, PStr r), (key_content, message)]"

definition add_message :: "ustr \<Rightarrow> pyval \<Rightarrow> pyval list \<Rightarrow> pyval list" where
  "add_message r message dialog_history = dialog_history @ [turn r message]"

subsection \<open>\<open>save_history\<close>\<close>

definition save_history ::
  "world \<Rightarrow> int \<Rightarrow> lead option \<Rightarrow> pyval list \<Rightarrow> state \<Rightarrow> (exn + unit) \<times> state" where
  "save_history w client_id l dialog_history st =
     (let payload = [(key_log, PStr (json_dumps w (PList dialog_history)))]
      in case l of
           Some x \<Rightarrow>
             (case LeadBase_init payload of
                Inl e \<Rightarrow> (Inl e, st)
              | Inr lead_data \<Rightarrow>
                  (case update_lead_service w client_id lead_data st of
                     (Inl e, st') \<Rightarrow> (Inl e, st')
                   | (Inr r, st') \<Rightarrow> (Inr (), st')))
         | None \<Rightarrow>
             (case LeadBase_init (payload @ [(key_id, PInt client_id)]) of
                Inl e \<Rightarrow> (Inl e, st)
              | Inr lead_create \<Rightarrow>
                  (case create_lead_service w lead_create st of
                     (Inl e, st') \<Rightarrow> (Inl e, st')
                   | (Inr r, st') \<Rightarrow> (Inr (), st'))))"

subsection \<open>\<open>clear_dialog\<close>\<close>

definition clear_dialog :: "world \<Rightarrow> int \<Rightarrow> state \<Rightarrow> (exn + unit) \<times> state" where
  "clear_dialog w client_id st =
     (case LeadBase_init [(key_name, PNone), (key_contact, PNone),
                          (key_log, PStr (json_dumps w (PList [])))] of
        Inl e \<Rightarrow> (Inl e, st)
      | Inr empty_lead \<Rightarrow>
          (case read_lead_service w client_id st of
             (Inr existing_lead, st1) \<Rightarrow>
               (case update_lead_service w client_id empty_lead st1 of
                  (Inl e, st2) \<Rightarrow> (Inl e, st2)
                | (Inr r, st2) \<Rightarrow> (Inr (), st2))
           | (Inl e, st1) \<Rightarrow>
               (case LeadBase_init
                       ((key_id, PInt client_id) #
                        map (\<lambda>kv. (fst kv, of_optional (snd kv))) (model_dump empty_lead)) of
                  Inl e \<Rightarrow> (Inl e, st1)
                | Inr empty_create \<Rightarrow>
                    (case create_lead_service w empty_create st1 of
                       (Inl e, st2) \<Rightarrow> (Inl e, st2)
                     | (Inr r, st2) \<Rightarrow> (Inr (), st2)))))"

text \<open>
  \<open>routes/dialog.py\<close>, \<open>dialog_clear\<close>: each call is a request with a session of its own
  on the rows the previous request left.
\<close>

definition dialog_clear :: "world \<Rightarrow> int \<Rightarrow> lead list \<Rightarrow> (exn + unit) \<times> lead list" where
  "dialog_clear w client_id rows =
     (case clear_dialog w client_id (request rows) of (r, st) \<Rightarrow> (r, table st))"

subsection \<open>\<open>step\<close>, 2: the order list\<close>

definition or_dash :: "ustr option \<Rightarrow> ustr" where
  \<comment> \<open>\<open>x or '-'\<close>\<close>
  "or_dash x = (case x of None \<Rightarrow> u ''-'' | Some s \<Rightarrow> if s = [] then u ''-'' else s)"

definition format_order :: "order \<Rightarrow> ustr" where
  "format_order x =
     u ''#'' @ str_int (o_id x) @ u '': '' @ or_dash (o_date x) @ u '' | '' @
     or_dash (o_customer x) @ u '' | '' @ or_dash (o_phone x) @ u '' | '' @
     or_dash (o_products x) @ u '' | '' @ or_dash (o_sum x) @ u '' | '' @
     or_dash (o_status x) @ u '' | '' @
     or_dash (o_payment x) @ u '' | '' @ or_dash (o_delivery x) @ u '' | '' @
     or_dash (o_track x)"

definition orders_text :: "world \<Rightarrow> ustr" where
  "orders_text w =
     (case read_orders_service w 0 50 of
        Inl e \<Rightarrow> lit_orders_error @ e
      | Inr orders \<Rightarrow>
          (let formatted_orders =
                 map format_order (filter (\<lambda>x. o_status x \<noteq> Some lit_cancelled) orders)
           in if formatted_orders \<noteq> [] then join nl formatted_orders else lit_no_orders))"

subsection \<open>\<open>step\<close>, 3: the knowledge base\<close>

definition format_chunk :: "world \<Rightarrow> chunk \<Rightarrow> ustr" where
  "format_chunk w r =
     u ''- (score='' @ format_3f w (chunk_score r) @ u '') '' @ chunk_content r"

text \<open>
  The pair \<open>(faq_text, chunks_text)\<close> after section 3. One \<open>try\<close> encloses both reads,
  and its handler assigns the error text to \<open>faq_text\<close>; \<open>chunks_text\<close> is assigned only
  after a search that returned.
\<close>

definition read_knowledge :: "world \<Rightarrow> ustr \<Rightarrow> ustr \<times> ustr" where
  "read_knowledge w user_input =
     (case base w of
        None \<Rightarrow> ([], [])
      | Some b \<Rightarrow>
          (case base_read b of
             Inl e \<Rightarrow> (lit_kb_error @ e, [])
           | Inr text \<Rightarrow>
               (let faq_text = (if strip text = [] then lit_kb_empty else text)
                in case search_chunks b user_input 5 of
                     Inl e \<Rightarrow> (lit_kb_error @ e, [])
                   | Inr search_results \<Rightarrow>
                       (faq_text,
                        if search_results \<noteq> []
                        then join (nl @ nl) (map (format_chunk w) search_results)
                        else lit_no_chunks))))"

subsection \<open>\<open>step\<close>, 4: the history as text\<close>

definition format_turn :: "world \<Rightarrow> pyval \<Rightarrow> exn + ustr" where
  "format_turn w m =
     (case subscript m key_role of
        Inl e \<Rightarrow> Inl e
      | Inr r \<Rightarrow>
          (case subscript m key_content of
             Inl e \<Rightarrow> Inl e
           | Inr c \<Rightarrow> Inr (fmt w r @ u '': '' @ fmt w c)))"

fun format_turns :: "world \<Rightarrow> pyval list \<Rightarrow> exn + ustr list" where
  "format_turns w [] = Inr []"
| "format_turns w (m # ms) =
     (case format_turn w m of
        Inl e \<Rightarrow> Inl e
      | Inr line \<Rightarrow>
          (case format_turns w ms of Inl e \<Rightarrow> Inl e | Inr lines \<Rightarrow> Inr (line # lines)))"

definition dialog_text :: "world \<Rightarrow> pyval list \<Rightarrow> exn + ustr" where
  "dialog_text w dialog_history =
     (if dialog_history \<noteq> []
      then (case format_turns w dialog_history of Inl e \<Rightarrow> Inl e | Inr lines \<Rightarrow> Inr (join nl lines))
      else Inr lit_no_dialog)"

subsection \<open>\<open>step\<close>, 5: the messages\<close>

definition system :: "ustr \<Rightarrow> message" where
  "system text = \<lparr>role = role_system, content = text\<rparr>"

definition context_messages :: "world \<Rightarrow> ustr \<Rightarrow> ustr \<Rightarrow> ustr \<Rightarrow> ustr \<Rightarrow> message list" where
  "context_messages w orders faq_text chunks_text dtext =
     [system (strip (DIALOG_SYS_PROMPT w)),
      system (lit_date @ current_date w),
      system (lit_track @ str_int (track_number w)),
      system (lit_orders @ orders),
      system (lit_faq @ take 4000 faq_text),
      system (lit_chunks @ take 4000 chunks_text),
      system (lit_history @ take 2000 dtext)]"

definition known_info :: "world \<Rightarrow> lead \<Rightarrow> ustr" where
  "known_info w l =
     lit_known @ (if truthy (name l) then fmt w (name l) else lit_no_name) @
     lit_contact @ (if truthy (contact l) then fmt w (contact l) else lit_no_contact)"

text \<open>
  Lines 225 to 247 for a lead that is an object: the greeting instruction when neither
  name nor contact is known, the known data when one of them is, and the user message.
\<close>

definition lead_messages :: "world \<Rightarrow> lead \<Rightarrow> message list \<Rightarrow> ustr \<Rightarrow> message list" where
  "lead_messages w x messages user_input =
     (let messages1 = (if \<not> truthy (name x) \<and> \<not> truthy (contact x)
                       then messages @ [system lit_greeting] else messages);
          messages2 = (if truthy (name x) \<or> truthy (contact x)
                       then messages1 @ [system (known_info w x)] else messages1)
      in messages2 @ [\<lparr>role = role_user, content = lit_question @ user_input\<rparr>])"

text \<open>
  Lines 225 to 247. The first test reads \<open>lead.name\<close> without testing \<open>lead\<close>, which
  raises when \<open>lead\<close> is \<open>None\<close>; the second test has the guard.
\<close>

definition client_messages ::
  "world \<Rightarrow> lead option \<Rightarrow> message list \<Rightarrow> ustr \<Rightarrow> exn + message list" where
  "client_messages w l messages user_input =
     (case l of
        None \<Rightarrow> Inl (AttributeError (no_attribute PNone key_name))
      | Some x \<Rightarrow> Inr (lead_messages w x messages user_input))"

subsection \<open>\<open>step\<close>, 1 to 5: from the request to the prompt\<close>

text \<open>
  Sections 1 to 5 of \<open>step\<close>: the lead and the history are loaded, the user message is
  added, the context texts are gathered and the messages are built. The result is the
  lead, the history in memory and the messages, or the exception that ends the turn.
\<close>

definition assemble ::
  "world \<Rightarrow> int \<Rightarrow> ustr \<Rightarrow> state \<Rightarrow> (exn + lead option \<times> pyval list \<times> message list) \<times> state" where
  "assemble w client_id user_input st =
     (case load_history w client_id st of
        ((l, history), st1) \<Rightarrow>
          (let dialog_history = add_message role_user (PStr user_input) history;
               orders = orders_text w;
               knowledge = read_knowledge w user_input
           in case dialog_text w dialog_history of
                Inl e \<Rightarrow> (Inl e, st1)
              | Inr dtext \<Rightarrow>
                  (case client_messages w l
                          (context_messages w orders (fst knowledge) (snd knowledge) dtext)
                          user_input of
                     Inl e \<Rightarrow> (Inl e, st1)
                   | Inr messages \<Rightarrow> (Inr (l, dialog_history, messages), st1))))"

subsection \<open>\<open>step\<close>, 7: the response\<close>

text \<open>\<open>re.sub(r'[\x00-\x1f]+', '', raw_response)\<close> removes every code point up to 31.\<close>

definition strip_control :: "ustr \<Rightarrow> ustr" where
  "strip_control raw = filter (\<lambda>c. 31 < c) raw"

record parsed =
  response_data :: "(ustr \<times> pyval) list"
  model_answer :: pyval
  sql_command :: pyval

definition key_model_answer :: ustr where
  "key_model_answer = u ''model_answer''"

definition key_sql :: ustr where
  "key_sql = u ''sql''"

definition key_user_name :: ustr where
  "key_user_name = u ''user_name''"

definition key_user_contact :: ustr where
  "key_user_contact = u ''user_contact''"

definition key_get :: ustr where
  "key_get = u ''get''"

text \<open>The handler of the \<open>try\<close>: \<open>e\<close> is the text of the exception.\<close>

definition parse_failed :: "ustr \<Rightarrow> parsed" where
  "parse_failed e =
     \<lparr>response_data = [], model_answer = PStr (lit_parse_error @ e), sql_command = PNone\<rparr>"

text \<open>
  The body of the \<open>try\<close>: the decoder raises on a text that is not JSON, and \<open>.get\<close>
  raises on a decoded value that is not a dict.
\<close>

definition parse_response :: "world \<Rightarrow> ustr \<Rightarrow> parsed" where
  "parse_response w raw_response =
     (case json_loads w (strip_control raw_response) of
        Inl e \<Rightarrow> parse_failed e
      | Inr (PDict d) \<Rightarrow>
          \<lparr>response_data = d,
           model_answer = dict_get d key_model_answer (PStr []),
           sql_command = dict_get d key_sql PNone\<rparr>
      | Inr v \<Rightarrow> parse_failed (no_attribute v key_get))"

subsection \<open>\<open>step\<close>, 8: the SQL command\<close>

definition run_sql :: "world \<Rightarrow> pyval \<Rightarrow> state \<Rightarrow> state" where
  "run_sql w sql st =
     (if truthy sql \<and> isinstance_str sql then snd (execute_sql w sql st) else st)"

subsection \<open>\<open>step\<close>, 9: the lead\<close>

definition update_lead :: "(ustr \<times> pyval) list \<Rightarrow> lead \<Rightarrow> lead" where
  "update_lead d l =
     l\<lparr>name := dict_get d key_user_name (name l),
       contact := dict_get d key_user_contact (contact l)\<rparr>"

subsection \<open>\<open>step\<close>, 7 to 10: from the raw response to the end of the turn\<close>

text \<open>
  The lead in \<open>step\<close> is the object loaded in the session, so an assignment to its
  attributes changes that object, and the next flush of the session writes the attributes
  that differ from their loaded values. The call of the logger after the assignments is
  recorded with the name and contact it reports.
\<close>

definition assign_lead :: "lead \<Rightarrow> state \<Rightarrow> state" where
  "assign_lead x st =
     st\<lparr>session := (case session st of None \<Rightarrow> None | Some (s, c) \<Rightarrow> Some (s, x)),
        trace := trace st @ [LeadLogged (name x) (contact x)]\<rparr>"

definition finish ::
  "world \<Rightarrow> int \<Rightarrow> lead option \<Rightarrow> pyval list \<Rightarrow> ustr \<Rightarrow> state \<Rightarrow> (exn + pyval) \<times> state" where
  "finish w client_id l dialog_history raw_response st =
     (let p = parse_response w raw_response;
          st1 = run_sql w (sql_command p) st;
          l' = map_option (update_lead (response_data p)) l;
          st2 = (case l' of None \<Rightarrow> st1 | Some x \<Rightarrow> assign_lead x st1);
          dialog_history' = add_message role_assistant (model_answer p) dialog_history
      in case save_history w client_id l' dialog_history' st2 of
           (Inl e, st3) \<Rightarrow> (Inl e, st3)
         | (Inr r, st3) \<Rightarrow> (Inr (model_answer p), st3))"

subsection \<open>\<open>step\<close>\<close>

text \<open>
  The call of \<open>gpt_request\<close> (section 6) stands between the two halves; it is not inside
  a \<open>try\<close>, so its exception ends the turn.
\<close>

definition step :: "world \<Rightarrow> int \<Rightarrow> ustr \<Rightarrow> state \<Rightarrow> (exn + pyval) \<times> state" where
  "step w client_id user_input st =
     (case assemble w client_id user_input st of
        (Inl e, st1) \<Rightarrow> (Inl e, st1)
      | (Inr (l, dialog_history, messages), st1) \<Rightarrow>
          (let st2 = st1\<lparr>trace := trace st1 @ [LlmCall messages]\<rparr>
           in case gpt_request w messages of
                Inl e \<Rightarrow> (Inl (UpstreamError e), st2)
              | Inr raw_response \<Rightarrow> finish w client_id l dialog_history raw_response st2))"

section \<open>Reading the record of a turn\<close>

fun sql_executed :: "effect list \<Rightarrow> pyval list" where
  "sql_executed [] = []"
| "sql_executed (SqlExec v ok # es) = v # sql_executed es"
| "sql_executed (e # es) = sql_executed es"

fun profile_writes :: "effect list \<Rightarrow> effect list" where
  "profile_writes [] = []"
| "profile_writes (LeadUpdated i # es) = LeadUpdated i # profile_writes es"
| "profile_writes (LeadCreated i # es) = LeadCreated i # profile_writes es"
| "profile_writes (e # es) = profile_writes es"

fun llm_calls :: "effect list \<Rightarrow> message list list" where
  "llm_calls [] = []"
| "llm_calls (LlmCall ms # es) = ms # llm_calls es"
| "llm_calls (e # es) = llm_calls es"

fun leads_logged :: "effect list \<Rightarrow> (pyval \<times> pyval) list" where
  "leads_logged [] = []"
| "leads_logged (LeadLogged n c # es) = (n, c) # leads_logged es"
| "leads_logged (e # es) = leads_logged es"

text \<open>The history a stored row holds, as \<open>load_history\<close> reads it.\<close>

definition stored_history :: "world \<Rightarrow> lead \<Rightarrow> pyval list" where
  "stored_history w r = decode_log w (log r)"

text \<open>
  The codec returns a value it has written, \<open>json.loads(json.dumps(v)) == v\<close>, and
  what it writes is not the empty string.
\<close>

definition codec_ok :: "world \<Rightarrow> pyval \<Rightarrow> bool" where
  "codec_ok w v = (json_loads w (json_dumps w v) = Inr v \<and> json_dumps w v \<noteq> [])"

text \<open>The messages of a turn for a stored lead, given the history text.\<close>

definition prompt :: "world \<Rightarrow> lead \<Rightarrow> ustr \<Rightarrow> ustr \<Rightarrow> message list" where
  "prompt w row user_input dtext =
     lead_messages w row
       (context_messages w (orders_text w) (fst (read_knowledge w user_input))
          (snd (read_knowledge w user_input)) dtext)
       user_input"

text \<open>
  The rows of table \<open>leads\<close> after section 8, and what section 8 adds to the record,
  for a value of \<open>sql_command\<close>.
\<close>

definition sql_result :: "world \<Rightarrow> pyval \<Rightarrow> lead list \<Rightarrow> lead list" where
  "sql_result w sql rows =
     (case sql of
        PStr s \<Rightarrow>
          (if s = [] then rows
           else (case sql_statement w s rows of None \<Rightarrow> rows | Some rows' \<Rightarrow> rows'))
      | _ \<Rightarrow> rows)"

definition sql_effects :: "world \<Rightarrow> pyval \<Rightarrow> lead list \<Rightarrow> effect list" where
  "sql_effects w sql rows =
     (case sql of
        PStr s \<Rightarrow>
          (if s = [] then []
           else (case sql_statement w s rows of
                   None \<Rightarrow> [SqlExec sql False]
                 | Some rows' \<Rightarrow> [SqlExec sql True]))
      | _ \<Rightarrow> [])"

text \<open>
  Whether the name and contact of the lead after section 9 can be written: each has its
  loaded value, or the driver accepts it. And the value a text column then holds.
\<close>

definition stores :: "world \<Rightarrow> lead \<Rightarrow> lead \<Rightarrow> bool" where
  "stores w loaded current =
     (case set_value w (name loaded) (name current) of
        Inl e \<Rightarrow> False
      | Inr n \<Rightarrow>
          (case set_value w (contact loaded) (contact current) of
             Inl e \<Rightarrow> False
           | Inr k \<Rightarrow> True))"

definition stored :: "world \<Rightarrow> pyval \<Rightarrow> pyval \<Rightarrow> pyval \<Rightarrow> pyval" where
  "stored w loaded current in_row =
     (if current = loaded then in_row
      else (case bind_string w current of Inl e \<Rightarrow> in_row | Inr v \<Rightarrow> v))"

text \<open>
  The row of the client that the end of a turn commits, from the row \<open>r\<close> that section
  8 left: the name and contact of the lead after section 9 where they differ from the
  loaded ones, and the serialized history.
\<close>

definition committed :: "world \<Rightarrow> lead \<Rightarrow> pyval list \<Rightarrow> parsed \<Rightarrow> lead \<Rightarrow> lead" where
  "committed w row dialog_history p r =
     r\<lparr>name := stored w (name row) (name (update_lead (response_data p) row)) (name r),
       contact := stored w (contact row) (contact (update_lead (response_data p) row)) (contact r),
       log := Some (json_dumps w
                (PList (add_message role_assistant (model_answer p) dialog_history)))\<rparr>"

text \<open>The history a turn leaves: the stored one, the user message, the answer.\<close>

definition history_after :: "world \<Rightarrow> lead \<Rightarrow> ustr \<Rightarrow> pyval \<Rightarrow> pyval list" where
  "history_after w row user_input answer =
     add_message role_assistant answer
       (add_message role_user (PStr user_input) (stored_history w row))"

section \<open>A concrete shop\<close>

text \<open>
  Concrete collaborators and rows, on which the functions above are evaluated. The codec
  of the examples is given by a finite table of texts and the values they stand for;
  nothing outside the table decodes.
\<close>

definition table_loads :: "(ustr \<times> pyval) list \<Rightarrow> ustr \<Rightarrow> ustr + pyval" where
  "table_loads t s = (case map_of t s of Some v \<Rightarrow> Inr v | None \<Rightarrow> Inl (u ''Expecting value''))"

definition table_dumps :: "(ustr \<times> pyval) list \<Rightarrow> pyval \<Rightarrow> ustr" where
  "table_dumps t v = (case find (\<lambda>sv. snd sv = v) t of Some sv \<Rightarrow> fst sv | None \<Rightarrow> u ''null'')"

definition sqlite_rowid :: "lead list \<Rightarrow> int" where
  \<comment> \<open>one more than the largest identifier in the table\<close>
  "sqlite_rowid rows = fold max (map lead_id rows) 0 + 1"

definition shop :: world where
  "shop =
     \<lparr>DIALOG_SYS_PROMPT = u ''You are Astra, a pet shop consultant. '',
      current_date = u ''2025-10-04'',
      track_number = 123456,
      order_rows = Inr [],
      base = None,
      gpt_request = (\<lambda>messages. Inl (u ''Connection error.'')),
      sql_statement = (\<lambda>sql rows. Some rows),
      bind_scalar = (\<lambda>v. None),
      json_loads = table_loads [(u ''[]'', PList [])],
      json_dumps = table_dumps [(u ''[]'', PList [])],
      py_format = (\<lambda>v. u ''None''),
      format_3f = (\<lambda>x. u ''0.000''),
      autoincrement = sqlite_rowid\<rparr>"

definition admin_row :: lead where
  \<comment> \<open>the administrator that \<open>init_db\<close> creates\<close>
  "admin_row =
     \<lparr>lead_id = 1, name = PStr (u ''Administrator''), contact = PNone, log = None,
      login = Some (u ''admin''), password = Some (u ''$2b$12$hash''), is_admin = True\<rparr>"

definition ann_row :: lead where
  "ann_row =
     \<lparr>lead_id = 7, name = PStr (u ''Ann''), contact = PNone, log = None,
      login = None, password = None, is_admin = False\<rparr>"

definition empty_row :: "int \<Rightarrow> lead" where
  \<comment> \<open>the row \<open>clear_dialog\<close> creates, under identifier \<open>i\<close>\<close>
  "empty_row i =
     \<lparr>lead_id = i, name = PNone, contact = PNone, log = Some (u ''[]''),
      login = None, password = None, is_admin = False\<rparr>"

text \<open>A shop whose model answers with a text that is not JSON.\<close>

definition hi :: ustr where
  "hi = u ''hi''"

definition not_json_history :: pyval where
  "not_json_history =
     PList [turn role_user (PStr hi),
            turn role_assistant (PStr (lit_parse_error @ u ''Expecting value''))]"

definition not_json_shop :: world where
  "not_json_shop =
     shop\<lparr>gpt_request := (\<lambda>messages. Inr (u ''Sorry, I cannot help.'')),
          json_loads := table_loads [(u ''[h]'', not_json_history)],
          json_dumps := table_dumps [(u ''[h]'', not_json_history)]\<rparr>"

text \<open>A shop whose model answers with an object whose \<open>sql\<close> is the number 5.\<close>

definition sql_number_text :: ustr where
  "sql_number_text = u ''{model_answer: Hello, sql: 5}''"

definition sql_number_response :: pyval where
  "sql_number_response =
     PDict [(key_model_answer, PStr (u ''Hello'')), (key_sql, PInt 5)]"

definition sql_number_history :: pyval where
  "sql_number_history =
     PList [turn role_user (PStr hi), turn role_assistant (PStr (u ''Hello''))]"

definition sql_number_shop :: world where
  "sql_number_shop =
     shop\<lparr>gpt_request := (\<lambda>messages. Inr sql_number_text),
          json_loads := table_loads [(sql_number_text, sql_number_response),
                                     (u ''[h]'', sql_number_history)],
          json_dumps := table_dumps [(sql_number_text, sql_number_response),
                                     (u ''[h]'', sql_number_history)]\<rparr>"










definition long_text :: ustr where
  "long_text =
     u ''user: '' @ replicate 2000 97 @ nl @ u ''assistant: ok'' @ nl @ u ''user: hi''"

section \<open>Facts about the services\<close>

lemma keys_distinct:
  "key_log \<noteq> key_name" "key_log \<noteq> key_contact" "key_name \<noteq> key_contact"
  "key_name \<noteq> key_log" "key_contact \<noteq> key_log" "key_contact \<noteq> key_name"
  "key_id \<noteq> key_name" "key_id \<noteq> key_contact" "key_id \<noteq> key_log"
  "key_name \<noteq> key_id" "key_contact \<noteq> key_id" "key_log \<noteq> key_id"
  by (simp_all add: key_log_def key_name_def key_contact_def key_id_def u_def)

lemma find_lead_id: "find_lead rows i = Some r \<Longrightarrow> lead_id r = i"
  by (induction rows) (auto simp: find_lead_def split: if_splits)

lemma find_lead_map:
  assumes "\<And>x. lead_id (f x) = lead_id x"
  shows "find_lead (map (\<lambda>x. if lead_id x = i then f x else x) rows) j =
         map_option (\<lambda>x. if lead_id x = i then f x else x) (find_lead rows j)"
  using assms by (induction rows) (auto simp: find_lead_def)

lemma find_lead_map_same:
  assumes "\<And>x. lead_id (f x) = lead_id x" and "find_lead rows i = Some r"
  shows "find_lead (map (\<lambda>x. if lead_id x = i then f x else x) rows) i = Some (f r)"
  using find_lead_map [of f i rows i, OF assms(1)] assms(2) find_lead_id [OF assms(2)]
  by simp

lemma LeadBase_init_log:
  "LeadBase_init [(key_log, PStr s)] = Inr \<lparr>f_name = None, f_contact = None, f_log = Some (Some s)\<rparr>"
  by (simp add: LeadBase_init_def validate_field_def keys_distinct)

lemma LeadBase_init_log_id:
  "LeadBase_init [(key_log, PStr s), (key_id, PInt i)] =
   Inr \<lparr>f_name = None, f_contact = None, f_log = Some (Some s)\<rparr>"
  by (simp add: LeadBase_init_def validate_field_def keys_distinct)

lemma request_reads:
  "table (request rows) = rows" "trace (request rows) = []" "session (request rows) = None"
  "tx (request rows) = None" "view (request rows) = rows"
  by (simp_all add: request_def view_def)

lemma flush_clean:
  "flush w \<lparr>table = rows, tx = t, session = None, trace = e\<rparr> =
     Inr \<lparr>table = rows, tx = t, session = None, trace = e\<rparr>"
  "flush w \<lparr>table = rows, tx = t, session = Some (r, r), trace = e\<rparr> =
     Inr \<lparr>table = rows, tx = t, session = Some (r, r), trace = e\<rparr>"
  by (simp_all add: flush_def)

lemma read_lead_service_request:
  "read_lead_service w i (request rows) =
   (case find_lead rows i of
      None \<Rightarrow> (Inl (HTTPException 404 lit_lead_not_found), request rows)
    | Some r \<Rightarrow> (Inr r, \<lparr>table = rows, tx = None, session = Some (r, r), trace = []\<rparr>))"
  by (simp add: read_lead_service_def request_def flush_clean view_def split: option.splits)

lemma format_turn_turn: "format_turn w (turn r m) = Inr (fmt w (PStr r) @ u '': '' @ fmt w m)"
  by (simp add: format_turn_def turn_def key_role_def key_content_def u_def)

lemma dialog_text_single:
  "dialog_text w [turn r (PStr m)] = Inr (r @ u '': '' @ m)"
  by (simp add: dialog_text_def add_message_def format_turn_turn fmt_def)

lemma assemble_absent:
  assumes "find_lead rows i = None"
  shows "assemble w i user_input (request rows) =
         (Inl (AttributeError (no_attribute PNone key_name)), request rows)"
  using assms
  by (simp add: assemble_def load_history_def read_lead_service_request add_message_def
      dialog_text_single client_messages_def)

lemma assemble_present:
  assumes "find_lead rows i = Some row"
  shows "assemble w i user_input (request rows) =
         (case dialog_text w (add_message role_user (PStr user_input) (stored_history w row)) of
            Inl e \<Rightarrow> (Inl e, \<lparr>table = rows, tx = None, session = Some (row, row), trace = []\<rparr>)
          | Inr dtext \<Rightarrow>
              (Inr (Some row, add_message role_user (PStr user_input) (stored_history w row),
                    prompt w row user_input dtext),
               \<lparr>table = rows, tx = None, session = Some (row, row), trace = []\<rparr>))"
  using assms
  by (simp add: assemble_def load_history_def read_lead_service_request stored_history_def
      client_messages_def prompt_def Let_def split: sum.splits)

lemma run_sql_eq:
  "run_sql w sql st =
     st\<lparr>table := sql_result w sql (table st), trace := trace st @ sql_effects w sql (table st)\<rparr>"
  by (cases sql)
     (simp_all add: run_sql_def sql_result_def sql_effects_def execute_sql_def
        split: option.splits)

lemma fold_setattr_log:
  "fold setattr (dict_exclude_unset \<lparr>f_name = None, f_contact = None, f_log = Some v\<rparr>) l
   = l\<lparr>log := v\<rparr>"
  by (simp add: dict_exclude_unset_def setattr_def keys_distinct)

lemma set_value_stored:
  "set_value w loaded current = Inr n \<Longrightarrow>
   (case n of None \<Rightarrow> in_row | Some v \<Rightarrow> v) = stored w loaded current in_row"
  by (auto simp: set_value_def stored_def split: if_splits sum.splits)

lemma stores_unchanged:
  "name c = name s \<Longrightarrow> contact c = contact s \<Longrightarrow> stores w s c"
  by (simp add: stores_def set_value_def)

lemma not_stores:
  "\<not> stores w s c \<Longrightarrow>
   (\<exists>e. set_value w (name s) (name c) = Inl e) \<or>
   (\<exists>n e. set_value w (name s) (name c) = Inr n \<and> set_value w (contact s) (contact c) = Inl e)"
  by (auto simp: stores_def split: sum.splits)

lemma set_value_error: "set_value w loaded current = Inl e \<Longrightarrow> e = DBAPIError"
  by (cases current)
     (auto simp: set_value_def bind_string_def split: if_splits option.splits sum.splits)

section \<open>The update after a merge\<close>

lemma update_merged:
  assumes i: "lead_id row = i" "lead_id c = i" and l: "log c = log row"
  shows "update_lead_service w i \<lparr>f_name = None, f_contact = None, f_log = Some v\<rparr>
           \<lparr>table = rows1, tx = None, session = Some (row, c), trace = t\<rparr> =
         (if \<not> stores w row c
          then (Inl DBAPIError, \<lparr>table = rows1, tx = None, session = Some (row, c), trace = t\<rparr>)
          else (case find_lead rows1 i of
                  None \<Rightarrow>
                    (Inl (if name c = name row \<and> contact c = contact row
                          then HTTPException 404 lit_lead_not_found else StaleDataError),
                     \<lparr>table = rows1, tx = None, session = Some (row, c), trace = t\<rparr>)
                | Some r \<Rightarrow>
                    (Inr (c\<lparr>log := v\<rparr>),
                     \<lparr>table = map (\<lambda>x. if lead_id x = i
                                then x\<lparr>name := stored w (name row) (name c) (name x),
                                       contact := stored w (contact row) (contact c) (contact x),
                                       log := v\<rparr>
                                else x) rows1,
                      tx = None, session = None, trace = t @ [LeadUpdated i]\<rparr>)))"
proof (cases "name c = name row \<and> contact c = contact row")
  case True
  then have s: "stores w row c" by (simp add: stores_unchanged)
  have st: "stored w a a x = x" for a x
    by (simp add: stored_def)
  have f: "flush w \<lparr>table = rows1, tx = None, session = Some (row, c), trace = t\<rparr> =
           Inr \<lparr>table = rows1, tx = None, session = Some (row, c), trace = t\<rparr>"
    using True l by (simp add: flush_def)
  show ?thesis
    using True i
    by (simp add: s st update_lead_service_def read_lead_service_def f view_def
        fold_setattr_log commit_def Let_def split: option.splits)
next
  case False
  show ?thesis
  proof (cases "stores w row c")
    case n: False
    from not_stores [OF n] consider
      (a) e where "set_value w (name row) (name c) = Inl e"
      | (b) m e where "set_value w (name row) (name c) = Inr m"
          "set_value w (contact row) (contact c) = Inl e"
      by blast
    then have
      "flush w \<lparr>table = rows1, tx = None, session = Some (row, c), trace = t\<rparr> = Inl DBAPIError"
    proof cases
      case a
      with set_value_error [OF a] False show ?thesis by (auto simp: flush_def)
    next
      case b
      with set_value_error [OF b(2)] False show ?thesis by (auto simp: flush_def)
    qed
    then show ?thesis
      using n by (simp add: update_lead_service_def read_lead_service_def)
  next
    case s: True
    then obtain n k where n: "set_value w (name row) (name c) = Inr n"
      and k: "set_value w (contact row) (contact c) = Inr k"
      by (auto simp: stores_def split: sum.splits)
    note sn = set_value_stored [OF n] and sk = set_value_stored [OF k]
    show ?thesis
    proof (cases "find_lead rows1 i")
      case None
      then have
        "flush w \<lparr>table = rows1, tx = None, session = Some (row, c), trace = t\<rparr> = Inl StaleDataError"
        using False n k i by (auto simp: flush_def view_def)
      then show ?thesis
        using s None False by (simp add: update_lead_service_def read_lead_service_def)
    next
      case (Some r)
      let ?u1 = "\<lambda>x. x\<lparr>name := stored w (name row) (name c) (name x),
                         contact := stored w (contact row) (contact c) (contact x)\<rparr>"
      have f: "flush w \<lparr>table = rows1, tx = None, session = Some (row, c), trace = t\<rparr> =
               Inr \<lparr>table = rows1,
                    tx = Some (map (\<lambda>x. if lead_id x = i then ?u1 x else x) rows1),
                    session = Some (c, c), trace = t\<rparr>"
        using False n k i Some l
        by (auto simp: flush_def view_def set_columns_def sn sk)
      have fl: "find_lead (map (\<lambda>x. if lead_id x = i then ?u1 x else x) rows1) i = Some (?u1 r)"
        by (rule find_lead_map_same [OF _ Some]) simp
      have m: "map (\<lambda>x. if lead_id x = i then x\<lparr>log := v\<rparr> else x)
                 (map (\<lambda>x. if lead_id x = i then ?u1 x else x) rows1) =
               map (\<lambda>x. if lead_id x = i
                        then x\<lparr>name := stored w (name row) (name c) (name x),
                               contact := stored w (contact row) (contact c) (contact x),
                               log := v\<rparr>
                        else x) rows1"
        by (induction rows1) simp_all
      show ?thesis
        using s Some i
        by (simp add: update_lead_service_def read_lead_service_def f view_def fl
            fold_setattr_log commit_def Let_def m)
    qed
  qed
qed

section \<open>The shape of a turn\<close>

lemma update_lead_reads:
  "lead_id (update_lead d l) = lead_id l" "log (update_lead d l) = log l"
  "name (update_lead d l) = dict_get d key_user_name (name l)"
  "contact (update_lead d l) = dict_get d key_user_contact (contact l)"
  by (simp_all add: update_lead_def)

lemma finish_stored:
  assumes "lead_id row = i"
  shows "finish w i (Some row) h raw \<lparr>table = rows, tx = None, session = Some (row, row), trace = t\<rparr> =
    (if \<not> stores w row (update_lead (response_data (parse_response w raw)) row)
     then (Inl DBAPIError,
           \<lparr>table = sql_result w (sql_command (parse_response w raw)) rows, tx = None,
            session = Some (row, update_lead (response_data (parse_response w raw)) row),
            trace = t @ sql_effects w (sql_command (parse_response w raw)) rows @
                    [LeadLogged (name (update_lead (response_data (parse_response w raw)) row))
                                (contact (update_lead (response_data (parse_response w raw)) row))]\<rparr>)
     else (case find_lead (sql_result w (sql_command (parse_response w raw)) rows) i of
             None \<Rightarrow>
               (Inl (if name (update_lead (response_data (parse_response w raw)) row) = name row
                        \<and> contact (update_lead (response_data (parse_response w raw)) row) = contact row
                     then HTTPException 404 lit_lead_not_found else StaleDataError),
                \<lparr>table = sql_result w (sql_command (parse_response w raw)) rows, tx = None,
                 session = Some (row, update_lead (response_data (parse_response w raw)) row),
                 trace = t @ sql_effects w (sql_command (parse_response w raw)) rows @
                    [LeadLogged (name (update_lead (response_data (parse_response w raw)) row))
                                (contact (update_lead (response_data (parse_response w raw)) row))]\<rparr>)
           | Some r \<Rightarrow>
               (Inr (model_answer (parse_response w raw)),
                \<lparr>table = map (\<lambda>x. if lead_id x = i
                                  then committed w row h (parse_response w raw) x else x)
                          (sql_result w (sql_command (parse_response w raw)) rows),
                 tx = None, session = None,
                 trace = t @ sql_effects w (sql_command (parse_response w raw)) rows @
                    [LeadLogged (name (update_lead (response_data (parse_response w raw)) row))
                                (contact (update_lead (response_data (parse_response w raw)) row)),
                     LeadUpdated i]\<rparr>)))"
proof -
  let ?p = "parse_response w raw"
  let ?c = "update_lead (response_data ?p) row"
  have u: "update_lead_service w i \<lparr>f_name = None, f_contact = None, f_log = Some v\<rparr>
           \<lparr>table = rows1, tx = None, session = Some (row, ?c), trace = t'\<rparr> =
         (if \<not> stores w row ?c
          then (Inl DBAPIError, \<lparr>table = rows1, tx = None, session = Some (row, ?c), trace = t'\<rparr>)
          else (case find_lead rows1 i of
                  None \<Rightarrow>
                    (Inl (if name ?c = name row \<and> contact ?c = contact row
                          then HTTPException 404 lit_lead_not_found else StaleDataError),
                     \<lparr>table = rows1, tx = None, session = Some (row, ?c), trace = t'\<rparr>)
                | Some r \<Rightarrow>
                    (Inr (?c\<lparr>log := v\<rparr>),
                     \<lparr>table = map (\<lambda>x. if lead_id x = i
                                then x\<lparr>name := stored w (name row) (name ?c) (name x),
                                       contact := stored w (contact row) (contact ?c) (contact x),
                                       log := v\<rparr>
                                else x) rows1,
                      tx = None, session = None, trace = t' @ [LeadUpdated i]\<rparr>)))" for v rows1 t'
    by (rule update_merged) (simp_all add: update_lead_reads assms)
  show ?thesis
    unfolding finish_def Let_def run_sql_eq
    by (simp add: assign_lead_def save_history_def LeadBase_init_log u committed_def
        split: option.splits)
qed

lemma step_absent:
  assumes "find_lead rows i = None"
  shows "step w i user_input (request rows) =
         (Inl (AttributeError (no_attribute PNone key_name)), request rows)"
  by (simp add: step_def assemble_absent [OF assms])

lemma step_present:
  assumes "find_lead rows i = Some row"
  shows "step w i user_input (request rows) =
         (case dialog_text w (add_message role_user (PStr user_input) (stored_history w row)) of
            Inl e \<Rightarrow> (Inl e, \<lparr>table = rows, tx = None, session = Some (row, row), trace = []\<rparr>)
          | Inr dtext \<Rightarrow>
              (case gpt_request w (prompt w row user_input dtext) of
                 Inl e \<Rightarrow>
                   (Inl (UpstreamError e),
                    \<lparr>table = rows, tx = None, session = Some (row, row),
                     trace = [LlmCall (prompt w row user_input dtext)]\<rparr>)
               | Inr raw \<Rightarrow>
                   finish w i (Some row)
                     (add_message role_user (PStr user_input) (stored_history w row)) raw
                     \<lparr>table = rows, tx = None, session = Some (row, row),
                      trace = [LlmCall (prompt w row user_input dtext)]\<rparr>))"
  by (simp add: step_def assemble_present [OF assms] split: sum.splits)

lemma llm_calls_append: "llm_calls (xs @ ys) = llm_calls xs @ llm_calls ys"
  by (induction xs rule: llm_calls.induct) simp_all

lemma sql_executed_append: "sql_executed (xs @ ys) = sql_executed xs @ sql_executed ys"
  by (induction xs rule: sql_executed.induct) simp_all

lemma profile_writes_append: "profile_writes (xs @ ys) = profile_writes xs @ profile_writes ys"
  by (induction xs rule: profile_writes.induct) simp_all

lemma leads_logged_append: "leads_logged (xs @ ys) = leads_logged xs @ leads_logged ys"
  by (induction xs rule: leads_logged.induct) simp_all

lemma sql_effects_reads:
  "llm_calls (sql_effects w v rows) = []"
  "profile_writes (sql_effects w v rows) = []"
  "leads_logged (sql_effects w v rows) = []"
  "sql_executed (sql_effects w v rows) =
     (case v of PStr s \<Rightarrow> (if s = [] then [] else [v]) | _ \<Rightarrow> [])"
  by (cases v; simp add: sql_effects_def split: option.splits)+

text \<open>
  The messages, the lead after section 9 and the rows after section 8 of a turn, for a
  stored row and a raw response.
\<close>

lemma step_returned:
  assumes "find_lead rows i = Some row"
    and "dialog_text w (add_message role_user (PStr user_input) (stored_history w row)) = Inr dtext"
    and "gpt_request w (prompt w row user_input dtext) = Inr raw"
  shows "step w i user_input (request rows) =
         finish w i (Some row) (add_message role_user (PStr user_input) (stored_history w row)) raw
           \<lparr>table = rows, tx = None, session = Some (row, row),
            trace = [LlmCall (prompt w row user_input dtext)]\<rparr>"
  by (simp add: step_present [OF assms(1)] assms(2,3))

lemma finish_trace:
  assumes "lead_id row = i"
  shows "llm_calls (trace (snd (finish w i (Some row) h raw
           \<lparr>table = rows, tx = None, session = Some (row, row), trace = t\<rparr>))) = llm_calls t"
    and "sql_executed (trace (snd (finish w i (Some row) h raw
           \<lparr>table = rows, tx = None, session = Some (row, row), trace = t\<rparr>))) =
         sql_executed t @ sql_executed (sql_effects w (sql_command (parse_response w raw)) rows)"
    and "leads_logged (trace (snd (finish w i (Some row) h raw
           \<lparr>table = rows, tx = None, session = Some (row, row), trace = t\<rparr>))) =
         leads_logged t @
         [(name (update_lead (response_data (parse_response w raw)) row),
           contact (update_lead (response_data (parse_response w raw)) row))]"
  by (simp_all add: finish_stored [OF assms] llm_calls_append sql_executed_append
      leads_logged_append sql_effects_reads split: option.splits)

lemma step_llm_called:
  assumes "llm_calls (trace (snd (step w i user_input (request rows)))) = [messages]"
  obtains row dtext where "find_lead rows i = Some row"
    and "dialog_text w (add_message role_user (PStr user_input) (stored_history w row)) = Inr dtext"
    and "messages = prompt w row user_input dtext"
proof (cases "find_lead rows i")
  case None
  with assms show ?thesis by (simp add: step_absent request_reads)
next
  case (Some row)
  show ?thesis
  proof (cases "dialog_text w (add_message role_user (PStr user_input) (stored_history w row))")
    case (Inl e)
    with assms Some show ?thesis by (simp add: step_present)
  next
    case (Inr dtext)
    have "messages = prompt w row user_input dtext"
    proof (cases "gpt_request w (prompt w row user_input dtext)")
      case (Inl e)
      with assms Some Inr show ?thesis by (simp add: step_present)
    next
      case r: (Inr raw)
      with assms Some Inr show ?thesis
        by (simp add: step_returned finish_trace [OF find_lead_id [OF Some]])
    qed
    with Some Inr that show ?thesis by blast
  qed
qed

section \<open>First contact and clearing\<close>

lemma find_lead_examples:
  "find_lead [admin_row] 7 = None"
  "find_lead [admin_row, ann_row] 7 = Some ann_row"
  "find_lead [admin_row, empty_row 2] 7 = None"
  "find_lead [admin_row, empty_row 2, empty_row 3] 7 = None"
  by (simp_all add: find_lead_def admin_row_def ann_row_def empty_row_def)

text \<open>
  Claim C1 says that a turn for a client with no stored profile does not fail: it runs
  with a null profile, returns the model answer and creates the profile at its end. The
  code does not: \<open>load_history\<close> returns \<open>None\<close> for the lead, and line 225 reads
  \<open>lead.name\<close> before any test of \<open>lead\<close>. For client 7, with only the administrator
  stored, the turn ends with the AttributeError, the model is never called and the state
  is the one the request started with.
\<close>

theorem first_contact_turn_raises:
  "step shop 7 hi (request [admin_row]) =
     (Inl (AttributeError (no_attribute PNone key_name)), request [admin_row])
   \<and> llm_calls (trace (snd (step shop 7 hi (request [admin_row])))) = []"
  by (simp add: step_absent find_lead_examples request_reads)

lemma shop_reads:
  "json_dumps shop (PList []) = u ''[]''"
  "autoincrement shop = sqlite_rowid"
  by (simp_all add: shop_def table_dumps_def)

lemma model_dump_fold:
  "fold setattr (model_dump \<lparr>f_name = n, f_contact = c, f_log = l\<rparr>) r =
   r\<lparr>name := of_optional (unset_default n), contact := of_optional (unset_default c),
     log := unset_default l\<rparr>"
  by (simp add: model_dump_def setattr_def keys_distinct)

lemma optional_reads:
  "of_optional None = PNone" "of_optional (Some s) = PStr s"
  "unset_default None = None" "unset_default (Some v) = v"
  by (simp_all add: of_optional_def unset_default_def)

lemma create_lead_service_request:
  assumes "find_lead rows (autoincrement w rows) = None"
  shows "create_lead_service w \<lparr>f_name = n, f_contact = c, f_log = l\<rparr> (request rows) =
         (Inr \<lparr>lead_id = autoincrement w rows, name = of_optional (unset_default n),
                contact = of_optional (unset_default c), log = unset_default l,
                login = None, password = None, is_admin = False\<rparr>,
          \<lparr>table = rows @ [\<lparr>lead_id = autoincrement w rows, name = of_optional (unset_default n),
                contact = of_optional (unset_default c), log = unset_default l,
                login = None, password = None, is_admin = False\<rparr>],
           tx = None, session = None, trace = [LeadCreated (autoincrement w rows)]\<rparr>)"
  using assms
  by (simp add: create_lead_service_def request_def flush_clean view_def model_dump_fold
      commit_def Let_def)

text \<open>
  Claim C2 says that each turn persists its state by one combined write, an update when
  the profile existed or a create under the client identifier when it did not. For
  client 7 with no stored profile the turn writes nothing at all and leaves the table as
  it was; and \<open>save_history\<close> itself, called with no lead for client 7, creates the row
  under the identifier the database assigns (2 here), since \<open>LeadCreate\<close> has no field
  \<open>id\<close>.
\<close>

theorem first_contact_turn_writes_nothing:
  "profile_writes (trace (snd (step shop 7 hi (request [admin_row])))) = []
   \<and> table (snd (step shop 7 hi (request [admin_row]))) = [admin_row]
   \<and> table (snd (save_history shop 7 None [] (request [admin_row]))) = [admin_row, empty_row 2]"
proof -
  have a: "autoincrement shop [admin_row] = 2"
    by (simp add: shop_reads sqlite_rowid_def admin_row_def)
  have "find_lead [admin_row] 2 = None"
    by (simp add: find_lead_def admin_row_def)
  then have f: "find_lead [admin_row] (autoincrement shop [admin_row]) = None"
    by (simp only: a)
  have "table (snd (save_history shop 7 None [] (request [admin_row]))) =
        [admin_row, empty_row 2]"
    by (simp add: save_history_def LeadBase_init_log_id create_lead_service_request [OF f]
        a shop_reads(1) optional_reads empty_row_def)
  then show ?thesis
    by (simp add: step_absent find_lead_examples request_reads)
qed

lemma LeadBase_init_empty:
  "LeadBase_init [(key_name, PNone), (key_contact, PNone), (key_log, PStr s)] =
   Inr \<lparr>f_name = Some None, f_contact = Some None, f_log = Some (Some s)\<rparr>"
  by (simp add: LeadBase_init_def validate_field_def keys_distinct)

lemma LeadBase_init_empty_id:
  "LeadBase_init ((key_id, PInt i) #
      map (\<lambda>kv. (fst kv, of_optional (snd kv)))
        (model_dump \<lparr>f_name = Some None, f_contact = Some None, f_log = Some (Some s)\<rparr>)) =
   Inr \<lparr>f_name = Some None, f_contact = Some None, f_log = Some (Some s)\<rparr>"
  by (simp add: LeadBase_init_def validate_field_def keys_distinct model_dump_def
      unset_default_def of_optional_def)

lemma clear_dialog_absent:
  assumes "find_lead rows i = None"
    and "find_lead rows (autoincrement w rows) = None"
  shows "dialog_clear w i rows =
         (Inr (), rows @ [\<lparr>lead_id = autoincrement w rows, name = PNone, contact = PNone,
                           log = Some (json_dumps w (PList [])), login = None,
                           password = None, is_admin = False\<rparr>])"
  using assms
  by (simp add: dialog_clear_def clear_dialog_def LeadBase_init_empty LeadBase_init_empty_id
      read_lead_service_request create_lead_service_request optional_reads)

text \<open>
  Claim C9 says that \<open>clear_dialog\<close> is idempotent and leaves the stored profile of the
  client empty, creating it when it did not exist. For client 7 with only the
  administrator stored, the first call creates an empty row under identifier 2, the second
  call finds no row 7 again and creates another under identifier 3, and after both calls
  there is still no profile for client 7.
\<close>

theorem clear_for_new_client_creates_other_rows:
  "dialog_clear shop 7 [admin_row] = (Inr (), [admin_row, empty_row 2])
   \<and> dialog_clear shop 7 [admin_row, empty_row 2] =
       (Inr (), [admin_row, empty_row 2, empty_row 3])
   \<and> find_lead [admin_row, empty_row 2, empty_row 3] 7 = None"
proof -
  have a: "sqlite_rowid [admin_row] = 2" "sqlite_rowid [admin_row, empty_row 2] = 3"
    by (simp_all add: sqlite_rowid_def admin_row_def empty_row_def)
  have f: "find_lead [admin_row] 2 = None" "find_lead [admin_row, empty_row 2] 3 = None"
    by (simp_all add: find_lead_def admin_row_def empty_row_def)
  have "dialog_clear shop 7 [admin_row] = (Inr (), [admin_row, empty_row 2])"
    using clear_dialog_absent [of "[admin_row]" 7 shop]
    by (simp add: find_lead_examples a f shop_reads empty_row_def)
  moreover have "dialog_clear shop 7 [admin_row, empty_row 2] =
       (Inr (), [admin_row, empty_row 2, empty_row 3])"
    using clear_dialog_absent [of "[admin_row, empty_row 2]" 7 shop]
    by (simp add: find_lead_examples a f shop_reads) (simp add: empty_row_def)
  ultimately show ?thesis by (simp add: find_lead_examples)
qed

lemma update_loaded:
  assumes "find_lead rows i = Some row"
  shows "update_lead_service w i lead_update
           \<lparr>table = rows, tx = None, session = Some (row, row), trace = t\<rparr> =
         (Inr (fold setattr (dict_exclude_unset lead_update) row),
          \<lparr>table = map (\<lambda>x. if lead_id x = i
                            then fold setattr (dict_exclude_unset lead_update) x else x) rows,
           tx = None, session = None, trace = t @ [LeadUpdated i]\<rparr>)"
  using assms find_lead_id [OF assms]
  by (simp add: update_lead_service_def read_lead_service_def flush_clean view_def Let_def
      commit_def)

lemma clear_dialog_present:
  assumes "find_lead rows i = Some row"
  shows "dialog_clear w i rows =
         (Inr (), map (\<lambda>x. if lead_id x = i
                          then x\<lparr>name := PNone, contact := PNone,
                                 log := Some (json_dumps w (PList []))\<rparr>
                          else x) rows)"
proof -
  have s: "fold setattr (dict_exclude_unset
             \<lparr>f_name = Some None, f_contact = Some None, f_log = Some (Some v)\<rparr>) x =
           x\<lparr>name := PNone, contact := PNone, log := Some v\<rparr>" for v x
    by (simp add: dict_exclude_unset_def setattr_def keys_distinct optional_reads)
  show ?thesis
    using assms
    by (simp add: dialog_clear_def clear_dialog_def LeadBase_init_empty
        read_lead_service_request update_loaded s)
qed

section \<open>The merge step\<close>



lemma step_llm_returned:
  assumes "llm_calls (trace (snd (step w i user_input (request rows)))) = [messages]"
    and "gpt_request w messages = Inr raw"
  obtains row dtext where "find_lead rows i = Some row" and "lead_id row = i"
    and "dialog_text w (add_message role_user (PStr user_input) (stored_history w row)) = Inr dtext"
    and "messages = prompt w row user_input dtext"
    and "step w i user_input (request rows) =
         finish w i (Some row) (add_message role_user (PStr user_input) (stored_history w row)) raw
           \<lparr>table = rows, tx = None, session = Some (row, row),
            trace = [LlmCall (prompt w row user_input dtext)]\<rparr>"
proof -
  from assms(1) obtain row dtext where r: "find_lead rows i = Some row"
    and d: "dialog_text w (add_message role_user (PStr user_input) (stored_history w row)) = Inr dtext"
    and m: "messages = prompt w row user_input dtext"
    by (rule step_llm_called)
  from assms(2) m have "gpt_request w (prompt w row user_input dtext) = Inr raw" by simp
  from step_returned [OF r d this] r d m find_lead_id [OF r] that show ?thesis by blast
qed

lemma parse_response_failed:
  "json_loads w (strip_control raw) = Inl e \<Longrightarrow> parse_response w raw = parse_failed e"
  by (simp add: parse_response_def)


lemma step_completes:
  assumes "find_lead rows i = Some row"
    and "dialog_text w (add_message role_user (PStr user_input) (stored_history w row)) = Inr dtext"
    and "gpt_request w (prompt w row user_input dtext) = Inr raw"
    and "stores w row (update_lead (response_data (parse_response w raw)) row)"
    and "find_lead (sql_result w (sql_command (parse_response w raw)) rows) i = Some r"
  shows "fst (step w i user_input (request rows)) = Inr (model_answer (parse_response w raw))"
    and "table (snd (step w i user_input (request rows))) =
         map (\<lambda>x. if lead_id x = i
                   then committed w row
                          (add_message role_user (PStr user_input) (stored_history w row))
                          (parse_response w raw) x
                   else x)
           (sql_result w (sql_command (parse_response w raw)) rows)"
  using assms(4,5)
  by (simp_all add: step_returned [OF assms(1-3)] finish_stored [OF find_lead_id [OF assms(1)]])



section \<open>Turns in which the model is called\<close>

lemma committed_reads:
  "lead_id (committed w row h p r) = lead_id r"
  "log (committed w row h p r) =
     Some (json_dumps w (PList (add_message role_assistant (model_answer p) h)))"
  "name (committed w row h p r) =
     stored w (name row) (name (update_lead (response_data p) row)) (name r)"
  "contact (committed w row h p r) =
     stored w (contact row) (contact (update_lead (response_data p) row)) (contact r)"
  by (simp_all add: committed_def)

lemma stored_same: "stored w a a x = x"
  by (simp add: stored_def)

lemma update_lead_nothing: "update_lead [] l = l"
  by (simp add: update_lead_def dict_get_def)

lemma sql_none:
  "sql_result w PNone rows = rows" "sql_effects w PNone rows = []"
  by (simp_all add: sql_result_def sql_effects_def)

lemma stored_history_written:
  assumes "log row' = Some (json_dumps w (PList h))" "codec_ok w (PList h)"
  shows "stored_history w row' = h"
  using assms by (simp add: stored_history_def decode_log_def codec_ok_def)

lemma length_history_after:
  "length (history_after w row user_input answer) = length (stored_history w row) + 2"
  by (simp add: history_after_def add_message_def)

lemma lit_parse_error_nonempty: "lit_parse_error @ e \<noteq> []"
  by (simp add: lit_parse_error_def)

lemma history_after_append:
  "history_after w row user_input answer =
   stored_history w row @ [turn role_user (PStr user_input), turn role_assistant answer]"
  by (simp add: history_after_def add_message_def)



text \<open>
  Claim C5: in every turn in which the model returns a text that is not valid JSON after
  the control characters are removed, \<open>step\<close> returns the diagnostic string, which is not
  empty and ends with the text of the exception; no SQL statement reaches the executor;
  the stored name and contact are unchanged; and the stored \<open>log\<close> is the serialized
  history of before with the user message and the diagnostic answer added, two entries
  more when read back.
\<close>

theorem malformed_response_turn:
  assumes "llm_calls (trace (snd (step w i user_input (request rows)))) = [messages]"
    and "gpt_request w messages = Inr raw"
    and "json_loads w (strip_control raw) = Inl e"
  shows "\<exists>row row'.
      fst (step w i user_input (request rows)) = Inr (PStr (lit_parse_error @ e))
    \<and> lit_parse_error @ e \<noteq> []
    \<and> sql_executed (trace (snd (step w i user_input (request rows)))) = []
    \<and> find_lead rows i = Some row
    \<and> find_lead (table (snd (step w i user_input (request rows)))) i = Some row'
    \<and> name row' = name row \<and> contact row' = contact row
    \<and> log row' = Some (json_dumps w
          (PList (history_after w row user_input (PStr (lit_parse_error @ e)))))
    \<and> length (history_after w row user_input (PStr (lit_parse_error @ e))) =
        length (stored_history w row) + 2
    \<and> (codec_ok w (PList (history_after w row user_input (PStr (lit_parse_error @ e))))
        \<longrightarrow> length (stored_history w row') = length (stored_history w row) + 2)"
proof -
  let ?p = "parse_response w raw"
  let ?h = "add_message role_user (PStr user_input)"
  from assms(1,2) obtain row dtext where r: "find_lead rows i = Some row" and i: "lead_id row = i"
    and d: "dialog_text w (?h (stored_history w row)) = Inr dtext"
    and m: "messages = prompt w row user_input dtext"
    and s: "step w i user_input (request rows) =
         finish w i (Some row) (?h (stored_history w row)) raw
           \<lparr>table = rows, tx = None, session = Some (row, row),
            trace = [LlmCall (prompt w row user_input dtext)]\<rparr>"
    by (rule step_llm_returned)
  have p: "?p = parse_failed e" by (rule parse_response_failed [OF assms(3)])
  have c: "update_lead (response_data ?p) row = row" "sql_command ?p = PNone"
    "model_answer ?p = PStr (lit_parse_error @ e)"
    by (simp_all add: p parse_failed_def update_lead_nothing)
  let ?row' = "committed w row (?h (stored_history w row)) ?p row"
  have st: "stores w row row" by (simp add: stores_unchanged)
  have f: "finish w i (Some row) (?h (stored_history w row)) raw
           \<lparr>table = rows, tx = None, session = Some (row, row),
            trace = [LlmCall (prompt w row user_input dtext)]\<rparr> =
        (Inr (PStr (lit_parse_error @ e)),
         \<lparr>table = map (\<lambda>x. if lead_id x = i
                       then committed w row (?h (stored_history w row)) ?p x else x) rows,
          tx = None, session = None,
          trace = [LlmCall (prompt w row user_input dtext), LeadLogged (name row) (contact row),
                   LeadUpdated i]\<rparr>)"
    by (simp add: finish_stored [OF i] c sql_none st r)
  have t: "find_lead (table (snd (step w i user_input (request rows)))) i = Some ?row'"
    using find_lead_map_same [of "committed w row (?h (stored_history w row)) ?p" rows i row] r
    by (simp add: s f committed_reads)
  have l: "log ?row' = Some (json_dumps w
          (PList (history_after w row user_input (PStr (lit_parse_error @ e)))))"
    by (simp add: committed_reads c history_after_def)
  have "fst (step w i user_input (request rows)) = Inr (PStr (lit_parse_error @ e))"
    by (simp add: s f)
  moreover have "sql_executed (trace (snd (step w i user_input (request rows)))) = []"
    by (simp add: s f)
  moreover have "name ?row' = name row" "contact ?row' = contact row"
    by (simp_all add: committed_reads c stored_same)
  moreover have "codec_ok w (PList (history_after w row user_input (PStr (lit_parse_error @ e))))
        \<longrightarrow> length (stored_history w ?row') = length (stored_history w row) + 2"
    using stored_history_written [OF l] by (simp add: length_history_after)
  ultimately show ?thesis
    using r t l lit_parse_error_nonempty length_history_after by blast
qed

text \<open>
  Claim C6: in every turn in which the model call raises, the exception leaves \<open>step\<close>
  as the failure of the turn, and nothing is persisted: the table of leads is what it was
  before the turn, no profile service committed anything, and no SQL statement ran.
\<close>

theorem model_failure_propagates:
  assumes "llm_calls (trace (snd (step w i user_input (request rows)))) = [messages]"
    and "gpt_request w messages = Inl e"
  shows "fst (step w i user_input (request rows)) = Inl (UpstreamError e)
    \<and> table (snd (step w i user_input (request rows))) = rows
    \<and> profile_writes (trace (snd (step w i user_input (request rows)))) = []
    \<and> sql_executed (trace (snd (step w i user_input (request rows)))) = []"
proof -
  from assms(1) obtain row dtext where r: "find_lead rows i = Some row"
    and d: "dialog_text w (add_message role_user (PStr user_input) (stored_history w row)) = Inr dtext"
    and m: "messages = prompt w row user_input dtext"
    by (rule step_llm_called)
  from assms(2) m have "gpt_request w (prompt w row user_input dtext) = Inl e" by simp
  then show ?thesis by (simp add: step_present [OF r] d)
qed

text \<open>
  Claim C7: every turn that completes leaves a stored history two entries longer than
  the one it found: the stored \<open>log\<close> is the serialization of the history of before
  followed by the user entry and the assistant entry, and reading it back gives that list.
\<close>

theorem completed_turn_adds_two_entries:
  assumes "fst (step w i user_input (request rows)) = Inr answer"
  shows "\<exists>row row'.
      find_lead rows i = Some row
    \<and> find_lead (table (snd (step w i user_input (request rows)))) i = Some row'
    \<and> log row' = Some (json_dumps w (PList (history_after w row user_input answer)))
    \<and> history_after w row user_input answer =
        stored_history w row @ [turn role_user (PStr user_input), turn role_assistant answer]
    \<and> length (history_after w row user_input answer) = length (stored_history w row) + 2
    \<and> (codec_ok w (PList (history_after w row user_input answer))
        \<longrightarrow> stored_history w row' = history_after w row user_input answer
          \<and> length (stored_history w row') = length (stored_history w row) + 2)"
proof (cases "find_lead rows i")
  case None
  with assms show ?thesis by (simp add: step_absent)
next
  case (Some row)
  note i = find_lead_id [OF Some]
  show ?thesis
  proof (cases "dialog_text w (add_message role_user (PStr user_input) (stored_history w row))")
    case (Inl e)
    with assms Some show ?thesis by (simp add: step_present)
  next
    case (Inr dtext)
    show ?thesis
    proof (cases "gpt_request w (prompt w row user_input dtext)")
      case (Inl e)
      with assms Some Inr show ?thesis by (simp add: step_present)
    next
      case raw: (Inr raw)
      let ?p = "parse_response w raw"
      let ?h = "add_message role_user (PStr user_input) (stored_history w row)"
      note s = step_returned [OF Some Inr raw]
      from assms have st: "stores w row (update_lead (response_data ?p) row)"
        by (simp add: s finish_stored [OF i] split: if_splits)
      from assms st obtain r where r: "find_lead (sql_result w (sql_command ?p) rows) i = Some r"
        by (cases "find_lead (sql_result w (sql_command ?p) rows) i")
           (simp_all add: s finish_stored [OF i])
      from assms have a: "answer = model_answer ?p"
        by (simp add: s finish_stored [OF i] st r)
      let ?row' = "committed w row ?h ?p r"
      have f: "find_lead (table (snd (step w i user_input (request rows)))) i = Some ?row'"
        using find_lead_map_same [of "committed w row ?h ?p" "sql_result w (sql_command ?p) rows" i r] r
        by (simp add: step_completes(2) [OF Some Inr raw st r] committed_reads)
      have l: "log ?row' = Some (json_dumps w (PList (history_after w row user_input answer)))"
        by (simp add: committed_reads a history_after_def)
      have "codec_ok w (PList (history_after w row user_input answer))
        \<longrightarrow> stored_history w ?row' = history_after w row user_input answer
          \<and> length (stored_history w ?row') = length (stored_history w row) + 2"
        using stored_history_written [OF l] by (simp add: length_history_after)
      with Some f l history_after_append length_history_after show ?thesis by blast
    qed
  qed
qed

section \<open>The SQL command\<close>




section \<open>The theorems on the concrete shop\<close>

lemma step_calls_llm:
  assumes "find_lead rows i = Some row"
    and "dialog_text w (add_message role_user (PStr user_input) (stored_history w row)) = Inr dtext"
  shows "llm_calls (trace (snd (step w i user_input (request rows)))) =
         [prompt w row user_input dtext]"
proof (cases "gpt_request w (prompt w row user_input dtext)")
  case (Inl e)
  with assms show ?thesis by (simp add: step_present)
next
  case (Inr raw)
  with assms show ?thesis
    by (simp add: step_returned finish_trace [OF find_lead_id [OF assms(1)]])
qed

lemma ann_history: "stored_history w ann_row = []"
  by (simp add: stored_history_def decode_log_def ann_row_def)

lemma ann_dialog_text:
  "dialog_text w (add_message role_user (PStr hi) (stored_history w ann_row)) =
   Inr (role_user @ u '': '' @ hi)"
  by (simp add: ann_history add_message_def dialog_text_single)

lemma ann_turn_calls_llm:
  "llm_calls (trace (snd (step w 7 hi (request [admin_row, ann_row])))) =
   [prompt w ann_row hi (role_user @ u '': '' @ hi)]"
  by (rule step_calls_llm [OF find_lead_examples(2) ann_dialog_text])

lemma strip_control_examples:
  "strip_control sql_number_text = sql_number_text"
  "strip_control (u ''Sorry, I cannot help.'') = u ''Sorry, I cannot help.''"
  by (simp_all add: strip_control_def sql_number_text_def u_def)

lemma response_keys:
  "key_sql \<noteq> key_model_answer" "key_user_name \<noteq> key_model_answer"
  "key_user_name \<noteq> key_sql" "key_user_contact \<noteq> key_model_answer"
  "key_user_contact \<noteq> key_sql" "key_user_contact \<noteq> key_user_name"
  by (simp_all add: key_user_name_def key_model_answer_def key_user_contact_def key_sql_def u_def)

lemma sql_number_merge:
  "update_lead [(key_model_answer, PStr (u ''Hello'')), (key_sql, PInt 5)] l = l"
  by (simp add: update_lead_def dict_get_def response_keys)

lemma sql_number_turn:
  "gpt_request sql_number_shop (prompt sql_number_shop ann_row hi (role_user @ u '': '' @ hi))
     = Inr sql_number_text"
  "json_loads sql_number_shop (strip_control sql_number_text) =
     Inr (PDict [(key_model_answer, PStr (u ''Hello'')), (key_sql, PInt 5)])"
  by (simp_all add: strip_control_examples sql_number_shop_def table_loads_def
      sql_number_response_def)



theorem malformed_response_turn_witness:
  "fst (step not_json_shop 7 hi (request [admin_row, ann_row])) =
     Inr (PStr (lit_parse_error @ u ''Expecting value''))
   \<and> sql_executed (trace (snd (step not_json_shop 7 hi (request [admin_row, ann_row])))) = []
   \<and> (\<exists>row'. find_lead (table (snd (step not_json_shop 7 hi
                   (request [admin_row, ann_row])))) 7 = Some row'
        \<and> name row' = PStr (u ''Ann'') \<and> contact row' = PNone
        \<and> length (stored_history not_json_shop row') = 2)"
proof -
  have g: "gpt_request not_json_shop (prompt not_json_shop ann_row hi (role_user @ u '': '' @ hi))
           = Inr (u ''Sorry, I cannot help.'')"
    by (simp add: not_json_shop_def)
  have j: "json_loads not_json_shop (strip_control (u ''Sorry, I cannot help.'')) =
           Inl (u ''Expecting value'')"
    by (simp only: strip_control_examples) (simp add: not_json_shop_def table_loads_def u_def)
  have h: "PList (history_after not_json_shop ann_row hi
             (PStr (lit_parse_error @ u ''Expecting value''))) = not_json_history"
    by (simp add: history_after_append ann_history not_json_history_def)
  have c: "codec_ok not_json_shop not_json_history"
    by (simp add: codec_ok_def not_json_shop_def table_dumps_def table_loads_def u_def)
  from malformed_response_turn [OF ann_turn_calls_llm g j] obtain row row' where
    "fst (step not_json_shop 7 hi (request [admin_row, ann_row])) =
       Inr (PStr (lit_parse_error @ u ''Expecting value''))"
    "sql_executed (trace (snd (step not_json_shop 7 hi (request [admin_row, ann_row])))) = []"
    "find_lead [admin_row, ann_row] 7 = Some row"
    "find_lead (table (snd (step not_json_shop 7 hi (request [admin_row, ann_row])))) 7 = Some row'"
    "name row' = name row" "contact row' = contact row"
    "codec_ok not_json_shop (PList (history_after not_json_shop row hi
        (PStr (lit_parse_error @ u ''Expecting value''))))
     \<longrightarrow> length (stored_history not_json_shop row') = length (stored_history not_json_shop row) + 2"
    by blast
  then show ?thesis
    using h c by (auto simp: find_lead_examples ann_history) (simp_all add: ann_row_def)
qed

theorem model_failure_propagates_witness:
  "fst (step shop 7 hi (request [admin_row, ann_row])) = Inl (UpstreamError (u ''Connection error.''))
   \<and> table (snd (step shop 7 hi (request [admin_row, ann_row]))) = [admin_row, ann_row]
   \<and> profile_writes (trace (snd (step shop 7 hi (request [admin_row, ann_row])))) = []"
proof -
  have g: "gpt_request shop (prompt shop ann_row hi (role_user @ u '': '' @ hi))
           = Inl (u ''Connection error.'')"
    by (simp add: shop_def)
  from model_failure_propagates [OF ann_turn_calls_llm g] show ?thesis by simp
qed


lemma sql_number_completes:
  "fst (step sql_number_shop 7 hi (request [admin_row, ann_row])) = Inr (PStr (u ''Hello''))"
proof -
  have p: "parse_response sql_number_shop sql_number_text =
           \<lparr>response_data = [(key_model_answer, PStr (u ''Hello'')), (key_sql, PInt 5)],
            model_answer = PStr (u ''Hello''), sql_command = PInt 5\<rparr>"
    by (simp add: parse_response_def sql_number_turn(2) dict_get_def response_keys)
  have q: "sql_result sql_number_shop (PInt 5) rows = rows" for rows
    by (simp add: sql_result_def)
  show ?thesis
    using step_completes(1) [OF find_lead_examples(2) ann_dialog_text sql_number_turn(1),
        of ann_row]
    by (simp add: p q sql_number_merge stores_unchanged find_lead_examples)
qed

theorem completed_turn_adds_two_entries_witness:
  "\<exists>row'. find_lead (table (snd (step sql_number_shop 7 hi (request [admin_row, ann_row])))) 7
             = Some row'
     \<and> stored_history sql_number_shop row' =
         [turn role_user (PStr hi), turn role_assistant (PStr (u ''Hello''))]
     \<and> length (stored_history sql_number_shop row') = length (stored_history sql_number_shop ann_row) + 2"
proof -
  have h: "PList (history_after sql_number_shop ann_row hi (PStr (u ''Hello''))) = sql_number_history"
    by (simp add: history_after_append ann_history sql_number_history_def)
  have c: "codec_ok sql_number_shop sql_number_history"
    by (simp add: codec_ok_def sql_number_shop_def table_dumps_def table_loads_def
        sql_number_history_def sql_number_response_def sql_number_text_def u_def)
  from completed_turn_adds_two_entries [OF sql_number_completes] obtain row row' where
    "find_lead [admin_row, ann_row] 7 = Some row"
    "find_lead (table (snd (step sql_number_shop 7 hi (request [admin_row, ann_row])))) 7 = Some row'"
    "codec_ok sql_number_shop (PList (history_after sql_number_shop row hi (PStr (u ''Hello''))))
        \<longrightarrow> stored_history sql_number_shop row' = history_after sql_number_shop row hi (PStr (u ''Hello''))
          \<and> length (stored_history sql_number_shop row') = length (stored_history sql_number_shop row) + 2"
    by blast
  then show ?thesis
    using h c by (auto simp: find_lead_examples history_after_append ann_history)
qed

section \<open>The history message\<close>




lemma last_long_text: "last long_text = 105"
  by (simp add: long_text_def u_def nl_def)



section \<open>Stored profiles\<close>

text \<open>
  The part of claim C2 that the code keeps: a turn of a stored profile that completes
  commits exactly once, through \<open>update_lead_service\<close>, and the row it commits carries
  the name and contact of section 9, where they differ from the loaded ones, together
  with the serialized history.
\<close>

lemma stored_profile_turn_writes_once:
  assumes "llm_calls (trace (snd (step w i user_input (request rows)))) = [messages]"
    and "gpt_request w messages = Inr raw"
    and "fst (step w i user_input (request rows)) = Inr answer"
  shows "\<exists>row r. find_lead rows i = Some row
    \<and> find_lead (sql_result w (sql_command (parse_response w raw)) rows) i = Some r
    \<and> profile_writes (trace (snd (step w i user_input (request rows)))) = [LeadUpdated i]
    \<and> find_lead (table (snd (step w i user_input (request rows)))) i =
        Some (committed w row
           (add_message role_user (PStr user_input) (stored_history w row))
           (parse_response w raw) r)"
proof -
  let ?p = "parse_response w raw"
  from assms(1,2) obtain row dtext where r: "find_lead rows i = Some row" and i: "lead_id row = i"
    and d: "dialog_text w (add_message role_user (PStr user_input) (stored_history w row)) = Inr dtext"
    and m: "messages = prompt w row user_input dtext"
    and s: "step w i user_input (request rows) =
         finish w i (Some row) (add_message role_user (PStr user_input) (stored_history w row)) raw
           \<lparr>table = rows, tx = None, session = Some (row, row),
            trace = [LlmCall (prompt w row user_input dtext)]\<rparr>"
    by (rule step_llm_returned)
  let ?h = "add_message role_user (PStr user_input) (stored_history w row)"
  from assms(3) have st: "stores w row (update_lead (response_data ?p) row)"
    by (simp add: s finish_stored [OF i] split: if_splits)
  from assms(3) st obtain x where x: "find_lead (sql_result w (sql_command ?p) rows) i = Some x"
    by (cases "find_lead (sql_result w (sql_command ?p) rows) i")
       (simp_all add: s finish_stored [OF i])
  have "find_lead (table (snd (step w i user_input (request rows)))) i =
        Some (committed w row ?h ?p x)"
    using find_lead_map_same [of "committed w row ?h ?p" "sql_result w (sql_command ?p) rows" i x] x
    by (simp add: s finish_stored [OF i] st committed_reads)
  moreover have "profile_writes (trace (snd (step w i user_input (request rows)))) = [LeadUpdated i]"
    by (simp add: s finish_stored [OF i] st x profile_writes_append sql_effects_reads)
  ultimately show ?thesis using r x by blast
qed

text \<open>
  The part of claim C9 that the code keeps: for a client whose profile is stored,
  \<open>clear_dialog\<close> updates the row in place to an empty profile, and a second call
  changes nothing more.
\<close>

lemma clear_stored_profile:
  assumes "find_lead rows i = Some row"
  shows "\<exists>row'. fst (dialog_clear w i rows) = Inr ()
    \<and> find_lead (snd (dialog_clear w i rows)) i = Some row'
    \<and> name row' = PNone \<and> contact row' = PNone \<and> log row' = Some (json_dumps w (PList []))
    \<and> length (snd (dialog_clear w i rows)) = length rows
    \<and> dialog_clear w i (snd (dialog_clear w i rows)) = dialog_clear w i rows"
proof -
  let ?e = "\<lambda>x. x\<lparr>name := PNone, contact := PNone, log := Some (json_dumps w (PList []))\<rparr>"
  let ?rows' = "map (\<lambda>x. if lead_id x = i then ?e x else x) rows"
  have c: "dialog_clear w i rows = (Inr (), ?rows')"
    by (rule clear_dialog_present [OF assms])
  have f: "find_lead ?rows' i = Some (?e row)"
    by (rule find_lead_map_same [OF _ assms]) simp
  have again: "map (\<lambda>x. if lead_id x = i then ?e x else x) ?rows' = ?rows'"
    by (induction rows) simp_all
  have "dialog_clear w i ?rows' = (Inr (), map (\<lambda>x. if lead_id x = i then ?e x else x) ?rows')"
    by (rule clear_dialog_present [OF f])
  then have "dialog_clear w i ?rows' = (Inr (), ?rows')"
    by (simp only: again)
  with c f show ?thesis by simp
qed

end
